theory Spec2Isabelle
  imports Complex_Main "HOL-Library.Multiset"
begin

section \<open>Library values shared by the notebooks\<close>

text \<open>
  A pseudo-random key is either made from a seed (\<open>jax.random.PRNGKey(seed)\<close>) or is
  one of the keys \<open>jax.random.split\<close> derives from a key. The generators are library
  functions of the key they are handed; the model names a key by its derivation.
\<close>

datatype prng_key = PRNGKey nat | Split prng_key nat

definition random_split :: "prng_key \<Rightarrow> nat \<Rightarrow> prng_key list" where
  \<comment> \<open>\<open>jax.random.split(key, n)\<close>\<close>
  "random_split key n = map (Split key) [0..<n]"

text \<open>
  A NumPyro model is a function that declares sites. \<open>numpyro.sample(name, d)\<close> is a
  latent site whose value the inference engine supplies, \<open>numpyro.sample(name, d, obs=v)\<close>
  an observed site, \<open>numpyro.factor(name, v)\<close> an extra term of the log-density and
  \<open>numpyro.deterministic(name, v)\<close> a recorded value. A run of a model is the list of
  its sites in the order of the calls. The type \<open>'g\<close> is the Gaussian process whose
  \<open>numpyro_dist()\<close> a site uses.
\<close>

datatype val = Scalar real | Array "real list"

datatype 'g dist =
    Normal real real
  | HalfNormal real
  | Uniform real real
  | QuadLDParams
  | NormalArray "real list" real
  | NumpyroDist 'g

datatype 'g site =
    Sample string "'g dist" "nat list" val
  | Observed string "'g dist" val
  | Factor string real
  | Deterministic string val

fun site_name :: "'g site \<Rightarrow> string" where
  "site_name (Sample n d sh v) = n"
| "site_name (Observed n d v) = n"
| "site_name (Factor n v) = n"
| "site_name (Deterministic n v) = n"

fun is_latent :: "'g site \<Rightarrow> bool" where
  "is_latent (Sample n d sh v) = True"
| "is_latent (Observed n d v) = False"
| "is_latent (Factor n v) = False"
| "is_latent (Deterministic n v) = False"

fun is_deterministic :: "'g site \<Rightarrow> bool" where
  "is_deterministic (Deterministic n v) = True"
| "is_deterministic (Sample n d sh v) = False"
| "is_deterministic (Observed n d v) = False"
| "is_deterministic (Factor n v) = False"

fun site_log_prob :: "('g dist \<Rightarrow> val \<Rightarrow> real) \<Rightarrow> 'g site \<Rightarrow> real" where
  \<comment> \<open>The term a site adds to the log-density the sampler targets; \<open>log_prob\<close> is the
      library's density of a distribution at a value.\<close>
  "site_log_prob log_prob (Sample n d sh v) = log_prob d v"
| "site_log_prob log_prob (Observed n d v) = log_prob d v"
| "site_log_prob log_prob (Factor n v) = v"
| "site_log_prob log_prob (Deterministic n v) = 0"

definition log_density :: "('g dist \<Rightarrow> val \<Rightarrow> real) \<Rightarrow> 'g site list \<Rightarrow> real" where
  "log_density log_prob tr = sum_list (map (site_log_prob log_prob) tr)"

definition linspace :: "real \<Rightarrow> real \<Rightarrow> nat \<Rightarrow> real list" where
  \<comment> \<open>\<open>jnp.linspace(a, b, n)\<close>: \<open>n\<close> evenly spaced points from \<open>a\<close> to \<open>b\<close> inclusive
      (the single point \<open>a\<close> when \<open>n = 1\<close>).\<close>
  "linspace a b n = map (\<lambda>i. a + (b - a) * real i / real (n - 1)) [0..<n]"

text \<open>
  \<open>GaussianProcess(kernel, X, diag=..., mean=...)\<close> is the library's constructor; the
  record holds the four arguments a notebook gives it. \<open>kernels.quasisep.Matern32\<close>
  and the product of a number and a kernel are library kernels.
\<close>

record ('k, 'x, 'd, 'm) gaussian_process =
  gp_kernel :: 'k
  gp_X :: 'x
  gp_diag :: 'd
  gp_mean :: 'm

datatype quasisep = Quasisep_Matern32 real | Quasisep_Scaled real quasisep

datatype error = LibraryError string | KeyError string | NameError string

datatype 's outcome = Completed 's | Aborted error 's

fun final_state :: "'s outcome \<Rightarrow> 's" where
  \<comment> \<open>the state a cell leaves, whether it ran to its end or an exception stopped it\<close>
  "final_state (Completed s) = s"
| "final_state (Aborted e s) = s"

fun completed :: "'s outcome \<Rightarrow> bool" where
  "completed (Completed s) = True"
| "completed (Aborted e s) = False"

section \<open>Kernel assessment: simulated data and the train / held-out split\<close>

text \<open>
  The simulation cell of the assessment notebook:
  \<^verbatim>\<open>
  key_t, key_y, key_split = jax.random.split(jax.random.PRNGKey(100), 3)
  N = 120
  yerr = 0.25
  t = jnp.sort(jax.random.uniform(key_t, (N,), minval=0.0, maxval=10.0))
  ...
  mask_train = jax.random.uniform(key_split, (N,)) < 0.7
  mask_train = mask_train.at[:10].set(False)
  mask_train = mask_train.at[-10:].set(False)
  plt.plot(t[mask_train], y[mask_train], ...)
  plt.plot(t[~mask_train], y[~mask_train], ...)
  \<close>
  The pseudo-random generator is a library function; the array it returns for
  \<open>key_split\<close> is the argument \<open>u\<close> of the model, so a statement for every \<open>u\<close> of
  length \<open>N\<close> is a statement for every seed.
\<close>

definition at_first_set :: "nat \<Rightarrow> 'a \<Rightarrow> 'a list \<Rightarrow> 'a list" where
  \<comment> \<open>\<open>x.at[:k].set(v)\<close>: the slice stops at the end of a shorter array.\<close>
  "at_first_set k v xs = replicate (min k (length xs)) v @ drop k xs"

definition at_last_set :: "nat \<Rightarrow> 'a \<Rightarrow> 'a list \<Rightarrow> 'a list" where
  \<comment> \<open>\<open>x.at[-k:].set(v)\<close> for \<open>k > 0\<close>: the slice starts at \<open>max (n - k) 0\<close>;
      \<open>-0\<close> is \<open>0\<close>, so \<open>k = 0\<close> selects the whole array.\<close>
  "at_last_set k v xs =
     (if k = 0 then replicate (length xs) v
      else take (length xs - k) xs @ replicate (min k (length xs)) v)"

definition mask_train :: "real list \<Rightarrow> bool list" where
  "mask_train u = at_last_set 10 False (at_first_set 10 False (map (\<lambda>x. x < 0.7) u))"

definition bool_index :: "'a list \<Rightarrow> bool list \<Rightarrow> 'a list" where
  \<comment> \<open>\<open>xs[mask]\<close> with a boolean mask of the same length.\<close>
  "bool_index xs m = map fst (filter snd (zip xs m))"

definition invert :: "bool list \<Rightarrow> bool list" where
  \<comment> \<open>\<open>~mask\<close>\<close>
  "invert m = map Not m"

definition true_positions :: "bool list \<Rightarrow> nat list" where
  "true_positions m = filter (\<lambda>i. m ! i) [0..<length m]"

section \<open>Kernel assessment: the simulation and the NumPyro model\<close>

text \<open>
  The rest of the simulation cell:
  \<^verbatim>\<open>
  kernel = 2.5**2 * kernels.ExpSquared(0.5)
  gp = GaussianProcess(kernel, t, diag=yerr**2)
  y = gp.sample(key_y)
  \<close>
  \<open>uniform key n lo hi\<close> is the library's \<open>jax.random.uniform(key, (n,), minval=lo,
  maxval=hi)\<close> and \<open>gp_sample gp key\<close> its \<open>gp.sample(key)\<close>.
\<close>

datatype kernel =
    ExpSquared real
  | Matern32 real
  | RationalQuadratic real real
  | Scaled real kernel

type_synonym assessment_gp = "(kernel, real list, real, unit) gaussian_process"

definition yerr :: real where
  "yerr = 0.25"

definition assessment_simulate ::
  "(prng_key \<Rightarrow> nat \<Rightarrow> real \<Rightarrow> real \<Rightarrow> real list) \<Rightarrow> (assessment_gp \<Rightarrow> prng_key \<Rightarrow> real list) \<Rightarrow>
   real list \<times> real list \<times> bool list" where
  \<comment> \<open>the observation set \<open>(t, y)\<close> and the mask the cell leaves\<close>
  "assessment_simulate uniform gp_sample =
     (let keys = random_split (PRNGKey 100) 3;
          key_t = keys ! 0; key_y = keys ! 1; key_split = keys ! 2;
          n = 120;
          t = sort (uniform key_t n 0 10);
          k = Scaled (2.5 ^ 2) (ExpSquared 0.5);
          gp = \<lparr>gp_kernel = k, gp_X = t, gp_diag = yerr ^ 2, gp_mean = ()\<rparr>;
          y = gp_sample gp key_y;
          m = mask_train (uniform key_split n 0 1)
      in (t, y, m))"

text \<open>
  \<^verbatim>\<open>
  def model(kernel_builder, t_train, y_train, t_test=None, y_test=None, t_pred=None):
      gp = GaussianProcess(kernel_builder(), t_train, diag=yerr**2)
      if t_test is None:
          numpyro.sample("y_train", gp.numpyro_dist(), obs=y_train)
      else:
          log_prob_train, gp_cond = gp.condition(y_train, t_test, diag=yerr**2)
          log_prob_test = gp_cond.log_probability(y_test)
          numpyro.factor("log_prob_train", log_prob_train)
          numpyro.deterministic("log_prob_test", log_prob_test)

      if t_pred is not None:
          gp_pred = gp.condition(y_train, t_pred, diag=yerr**2).gp
          numpyro.deterministic("mean_pred", gp_pred.loc)
          numpyro.deterministic("std_pred", jnp.sqrt(gp_pred.variance))

  def build_exp_sq():
      sigma = numpyro.sample("sigma", dist.HalfNormal(10.0))
      rho = numpyro.sample("rho", dist.HalfNormal(5.0))
      return sigma**2 * kernels.ExpSquared(rho)

  def build_matern():
      sigma = numpyro.sample("sigma", dist.HalfNormal(10.0))
      rho = numpyro.sample("rho", dist.HalfNormal(5.0))
      return sigma**2 * kernels.Matern32(rho)

  def build_raquad():
      sigma = numpyro.sample("sigma", dist.HalfNormal(10.0))
      rho = numpyro.sample("rho", dist.HalfNormal(5.0))
      alpha = numpyro.sample("alpha", dist.HalfNormal(10.0))
      return sigma**2 * kernels.RationalQuadratic(rho, alpha=alpha)
  \<close>
  A kernel builder declares its latent sites and returns a kernel; \<open>lat\<close> gives the
  value the inference engine supplies for each latent site. The record \<open>tinygp\<close>
  holds the library functions the model calls: \<open>gp.condition(y, t, diag=d)\<close> returns
  the log-probability of \<open>y\<close> and a conditioned process, of which the model reads the
  log-probability of further values, the mean \<open>loc\<close> and the \<open>variance\<close>.
\<close>

record 'c tinygp =
  gp_condition :: "assessment_gp \<Rightarrow> real list \<Rightarrow> real list \<Rightarrow> real \<Rightarrow> real \<times> 'c"
  cond_log_probability :: "'c \<Rightarrow> real list option \<Rightarrow> real"
  cond_loc :: "'c \<Rightarrow> real list"
  cond_variance :: "'c \<Rightarrow> real list"

type_synonym kernel_builder = "(string \<Rightarrow> real) \<Rightarrow> assessment_gp site list \<times> kernel"

definition build_exp_sq :: kernel_builder where
  "build_exp_sq lat =
     ([Sample ''sigma'' (HalfNormal 10) [] (Scalar (lat ''sigma'')),
       Sample ''rho'' (HalfNormal 5) [] (Scalar (lat ''rho''))],
      Scaled ((lat ''sigma'') ^ 2) (ExpSquared (lat ''rho'')))"



definition assessment_model ::
  "'c tinygp \<Rightarrow> kernel_builder \<Rightarrow> (string \<Rightarrow> real) \<Rightarrow> real list \<Rightarrow> real list \<Rightarrow>
   real list option \<Rightarrow> real list option \<Rightarrow> real list option \<Rightarrow> assessment_gp site list" where
  "assessment_model lib kernel_builder lat t_train y_train t_test y_test t_pred =
     (let (builder_sites, k) = kernel_builder lat;
          gp = \<lparr>gp_kernel = k, gp_X = t_train, gp_diag = yerr ^ 2, gp_mean = ()\<rparr>;
          data_sites =
            (case t_test of
               None \<Rightarrow> [Observed ''y_train'' (NumpyroDist gp) (Array y_train)]
             | Some tt \<Rightarrow>
                 (let (log_prob_train, gp_cond) = gp_condition lib gp y_train tt (yerr ^ 2);
                      log_prob_test = cond_log_probability lib gp_cond y_test
                  in [Factor ''log_prob_train'' log_prob_train,
                      Deterministic ''log_prob_test'' (Scalar log_prob_test)]));
          pred_sites =
            (case t_pred of
               None \<Rightarrow> []
             | Some tp \<Rightarrow>
                 (let gp_pred = snd (gp_condition lib gp y_train tp (yerr ^ 2))
                  in [Deterministic ''mean_pred'' (Array (cond_loc lib gp_pred)),
                      Deterministic ''std_pred'' (Array (map sqrt (cond_variance lib gp_pred)))]))
      in builder_sites @ data_sites @ pred_sites)"

text \<open>
  The three fits run the model on the split arrays:
  \<^verbatim>\<open>
  sampler_exp_sq.run(
      jax.random.PRNGKey(0), t[mask_train], y[mask_train], t[~mask_train], y[~mask_train]
  )
  \<close>
  The sampler draws from the density whose logarithm, at the latent values \<open>lat\<close>, is
  the sum of the terms of the sites of the model run at \<open>lat\<close>.
\<close>

definition fit_model ::
  "'c tinygp \<Rightarrow> kernel_builder \<Rightarrow> real list \<Rightarrow> real list \<Rightarrow> bool list \<Rightarrow>
   (string \<Rightarrow> real) \<Rightarrow> assessment_gp site list" where
  \<comment> \<open>the model as a fit calls it, from the observations and the mask\<close>
  "fit_model lib kernel_builder t y m lat =
     assessment_model lib kernel_builder lat (bool_index t m) (bool_index y m)
       (Some (bool_index t (invert m))) (Some (bool_index y (invert m))) None"

definition fit_target ::
  "(assessment_gp dist \<Rightarrow> val \<Rightarrow> real) \<Rightarrow> 'c tinygp \<Rightarrow> kernel_builder \<Rightarrow>
   real list \<Rightarrow> real list \<Rightarrow> bool list \<Rightarrow> (string \<Rightarrow> real) \<Rightarrow> real" where
  "fit_target log_prob lib kernel_builder t y m lat =
     log_density log_prob (fit_model lib kernel_builder t y m lat)"

section \<open>Quasar time delay: the multiband kernel and \<open>build_gp\<close>\<close>

text \<open>
  A coordinate is a pair \<open>(t, band)\<close> of a time and an integer band index; the
  observation set \<open>X\<close> is the pair of the two arrays.
  \<^verbatim>\<open>
  @tinygp.helpers.dataclass
  class Multiband(kernels.quasisep.Wrapper):
      amplitudes: jnp.ndarray

      def coord_to_sortable(self, X):
          return X[0]

      def observation_model(self, X):
          return self.amplitudes[X[1]] * self.kernel.observation_model(X[0])
  \<close>
\<close>

definition jnp_getitem :: "'a list \<Rightarrow> int \<Rightarrow> 'a" where
  \<comment> \<open>\<open>a[i]\<close> on a JAX array with an integer index: a negative index counts from the
      end, an index out of range is clamped to the nearest valid position.\<close>
  "jnp_getitem a i =
     (let n = int (length a); j = (if i < 0 then i + n else i)
      in a ! nat (max 0 (min (n - 1) j)))"

record multiband =
  amplitudes :: "real list"
  kernel :: quasisep

definition coord_to_sortable :: "multiband \<Rightarrow> real \<times> int \<Rightarrow> real" where
  "coord_to_sortable self X = fst X"

definition observation_model ::
  "(quasisep \<Rightarrow> real \<Rightarrow> real list) \<Rightarrow> multiband \<Rightarrow> real \<times> int \<Rightarrow> real list" where
  \<comment> \<open>\<open>inner\<close> is the wrapped kernel's own \<open>observation_model\<close> (library code).\<close>
  "observation_model inner self X =
     map (\<lambda>h. jnp_getitem (amplitudes self) (snd X) * h) (inner (kernel self) (fst X))"

definition evaluate ::
  "(quasisep \<Rightarrow> real \<Rightarrow> real \<Rightarrow> real list \<Rightarrow> real list \<Rightarrow> real) \<Rightarrow>
   (quasisep \<Rightarrow> real \<Rightarrow> real list) \<Rightarrow> multiband \<Rightarrow> real \<times> int \<Rightarrow> real \<times> int \<Rightarrow> real" where
  \<comment> \<open>The covariance \<open>k(X1, X2)\<close> is computed by the inherited library method. It
      reaches the two coordinates only through the methods the class overrides, so it
      is some function \<open>E\<close> of the wrapped kernel, of the two sortable coordinates and
      of the two observation vectors.\<close>
  "evaluate E inner self X1 X2 =
     E (kernel self) (coord_to_sortable self X1) (coord_to_sortable self X2)
       (observation_model inner self X1) (observation_model inner self X2)"

definition swap_bands :: "real list \<Rightarrow> real list" where
  \<comment> \<open>the amplitudes array with its two entries exchanged\<close>
  "swap_bands a = [a ! 1, a ! 0]"

definition relabel :: "real \<times> int \<Rightarrow> real \<times> int" where
  \<comment> \<open>the coordinate with band 0 renamed 1 and band 1 renamed 0\<close>
  "relabel X = (fst X, 1 - snd X)"

text \<open>
  \<^verbatim>\<open>
  def time_delay_transform(lag, X):
      t, band = X
      return t - lag * band

  def mean_func(means, X):
      t, band = X
      return means[band]
  \<close>
  \<open>time_delay_transform\<close> is applied to the pair of arrays, elementwise.
\<close>

definition time_delay_transform :: "real \<Rightarrow> real list \<times> int list \<Rightarrow> real list" where
  "time_delay_transform lag X = map2 (\<lambda>t band. t - lag * of_int band) (fst X) (snd X)"

definition mean_func :: "real list \<Rightarrow> real \<times> int \<Rightarrow> real" where
  "mean_func means X = jnp_getitem means (snd X)"

record params =
  lag :: real
  log_ell :: real
  amps :: "real list"
  means :: "real list"

type_synonym quasar_gp =
  "(multiband, real list \<times> int list, real list, real \<times> int \<Rightarrow> real) gaussian_process"

definition argsort :: "real list \<Rightarrow> nat list" where
  \<comment> \<open>\<open>jnp.argsort\<close>: the positions in non-decreasing order of their values, equal
      values in their original order.\<close>
  "argsort ts = map snd (sort_key fst (zip ts [0..<length ts]))"

definition take_inds :: "'a list \<Rightarrow> nat list \<Rightarrow> 'a list" where
  \<comment> \<open>\<open>a[inds]\<close> with an array of positions\<close>
  "take_inds a inds = map (\<lambda>i. a ! i) inds"

text \<open>
  \<^verbatim>\<open>
  def build_gp(params, X, diag):
      band = X[1]
      t = time_delay_transform(params["lag"], X)
      inds = jnp.argsort(t)
      kernel = Multiband(
          amplitudes=params["amps"],
          kernel=kernels.quasisep.Matern32(jnp.exp(params["log_ell"])),
      )
      mean = partial(mean_func, params["means"])
      return (
          GaussianProcess(kernel, (t[inds], band[inds]), diag=diag[inds], mean=mean),
          inds,
      )

  @jax.jit
  def loss(params):
      gp, inds = build_gp(params, X, diag)
      return -gp.log_probability(y[inds])
  \<close>
  \<open>log_probability\<close> is the library's.
\<close>

definition build_gp :: "params \<Rightarrow> real list \<times> int list \<Rightarrow> real list \<Rightarrow> quasar_gp \<times> nat list" where
  "build_gp ps X diag =
     (let band = snd X;
          t = time_delay_transform (lag ps) X;
          inds = argsort t;
          kernel = \<lparr>amplitudes = amps ps, kernel = Quasisep_Matern32 (exp (log_ell ps))\<rparr>;
          mean = mean_func (means ps)
      in (\<lparr>gp_kernel = kernel, gp_X = (take_inds t inds, take_inds band inds),
            gp_diag = take_inds diag inds, gp_mean = mean\<rparr>,
          inds))"

definition loss_args ::
  "real list \<times> int list \<Rightarrow> real list \<Rightarrow> real list \<Rightarrow> params \<Rightarrow> quasar_gp \<times> real list" where
  \<comment> \<open>the process and the values \<open>loss\<close> hands to \<open>log_probability\<close>\<close>
  "loss_args X diag y ps = (let (gp, inds) = build_gp ps X diag in (gp, take_inds y inds))"

definition loss ::
  "(quasar_gp \<Rightarrow> real list \<Rightarrow> real) \<Rightarrow>
   real list \<times> int list \<Rightarrow> real list \<Rightarrow> real list \<Rightarrow> params \<Rightarrow> real" where
  "loss log_probability X diag y ps =
     (let (gp, obs) = loss_args X diag y ps in - log_probability gp obs)"

text \<open>
  The quasar table has one row per epoch: the Julian date, and the magnitude and its
  error in each of the two bands. The generation cell:
  \<^verbatim>\<open>
  N = len(data)
  X = jnp.concatenate((data["jd"].value, data["jd"].value)), jnp.concatenate(
      (jnp.zeros(N, dtype=int), jnp.ones(N, dtype=int))
  )
  y = jnp.concatenate((data["a_mag"].value, data["b_mag"].value))
  diag = jnp.concatenate((data["a_mag_err"].value, data["b_mag_err"].value)) ** 2
  ...
  true_params = {
      "lag": 420.0,
      "log_ell": jnp.log(100.0),
      "amps": jnp.array([0.08, 0.12]),
      "means": jnp.array([17.43, 17.53]),
  }
  gp, inds = build_gp(true_params, X, diag)
  y = jnp.empty_like(y)
  y = y.at[inds].set(gp.sample(jax.random.PRNGKey(10)))
  \<close>
  \<open>gp.sample\<close> is the library's; \<open>jnp.empty_like\<close> returns an array of the same shape
  whose contents are not specified, the argument \<open>uninit\<close> of the model.
\<close>

record row =
  jd :: real
  a_mag :: real
  a_mag_err :: real
  b_mag :: real
  b_mag_err :: real

definition true_params :: params where
  "true_params = \<lparr>lag = 420, log_ell = ln 100, amps = [0.08, 0.12], means = [17.43, 17.53]\<rparr>"

definition at_set :: "'a list \<Rightarrow> nat list \<Rightarrow> 'a list \<Rightarrow> 'a list" where
  \<comment> \<open>\<open>a.at[inds].set(vs)\<close>: position \<open>inds[k]\<close> receives \<open>vs[k]\<close>; a position out of
      range is dropped.\<close>
  "at_set a inds vs = fold (\<lambda>(i, v) acc. acc[i := v]) (zip inds vs) a"

definition quasar_X :: "row list \<Rightarrow> real list \<times> int list" where
  "quasar_X data =
     (let N = length data
      in (map jd data @ map jd data, replicate N 0 @ replicate N 1))"

definition quasar_diag :: "row list \<Rightarrow> real list" where
  "quasar_diag data = map (\<lambda>e. e ^ 2) (map a_mag_err data @ map b_mag_err data)"

definition quasar_simulate ::
  "(quasar_gp \<Rightarrow> prng_key \<Rightarrow> real list) \<Rightarrow> real list \<Rightarrow> row list \<Rightarrow>
   (real list \<times> int list) \<times> real list \<times> real list" where
  \<comment> \<open>the observation set \<open>(X, y, diag)\<close> the generation cell leaves\<close>
  "quasar_simulate gp_sample uninit data =
     (let X = quasar_X data;
          y0 = map a_mag data @ map b_mag data;
          diag = quasar_diag data;
          (gp, inds) = build_gp true_params X diag;
          y1 = uninit;
          y2 = at_set y1 inds (gp_sample gp (PRNGKey 10))
      in (X, y2, diag))"

text \<open>
  The NumPyro model of the quasar notebook. \<open>lat\<close> gives the value of each scalar
  latent site, \<open>lat_amps\<close> the value of the site \<open>amps\<close> (an array of two);
  \<open>condition_loc gp y Xs\<close> is the library's \<open>gp.condition(y, Xs).gp.loc\<close>.
  \<^verbatim>\<open>
  def model(X, diag, y):
      lag = numpyro.sample("lag", dist.Uniform(0.0, 1000.0))
      log_ell = numpyro.sample("log_ell", dist.Uniform(jnp.log(10), jnp.log(1000.0)))
      amps = numpyro.sample("amps", dist.Uniform(-5.0, 5.0), sample_shape=(2,))
      mean_a = numpyro.sample("mean_a", dist.Uniform(17.0, 18.0))
      delta_mean = numpyro.sample("delta_mean", dist.Uniform(-2.0, 2.0))
      means = jnp.stack((mean_a, mean_a + delta_mean))
      params = {"lag": lag, "log_ell": log_ell, "amps": amps, "means": means}
      gp, inds = build_gp(params, X, diag)
      numpyro.sample("y", gp.numpyro_dist(), obs=y[inds])
      numpyro.deterministic(
          "pred_a",
          gp.condition(y[inds], (t_grid, jnp.zeros_like(t_grid, dtype=int))).gp.loc,
      )
      numpyro.deterministic(
          "pred_b",
          gp.condition(y[inds], (t_grid, jnp.ones_like(t_grid, dtype=int))).gp.loc,
      )
  \<close>
\<close>

definition quasar_model_params :: "(string \<Rightarrow> real) \<Rightarrow> real list \<Rightarrow> params" where
  "quasar_model_params lat lat_amps =
     \<lparr>lag = lat ''lag'', log_ell = lat ''log_ell'', amps = lat_amps,
      means = [lat ''mean_a'', lat ''mean_a'' + lat ''delta_mean'']\<rparr>"

definition quasar_model ::
  "(quasar_gp \<Rightarrow> real list \<Rightarrow> real list \<times> int list \<Rightarrow> real list) \<Rightarrow>
   (string \<Rightarrow> real) \<Rightarrow> real list \<Rightarrow> real list \<Rightarrow>
   real list \<times> int list \<Rightarrow> real list \<Rightarrow> real list \<Rightarrow> quasar_gp site list" where
  "quasar_model condition_loc lat lat_amps t_grid X diag y =
     (let (gp, inds) = build_gp (quasar_model_params lat lat_amps) X diag
      in [Sample ''lag'' (Uniform 0 1000) [] (Scalar (lat ''lag'')),
          Sample ''log_ell'' (Uniform (ln 10) (ln 1000)) [] (Scalar (lat ''log_ell'')),
          Sample ''amps'' (Uniform (- 5) 5) [2] (Array lat_amps),
          Sample ''mean_a'' (Uniform 17 18) [] (Scalar (lat ''mean_a'')),
          Sample ''delta_mean'' (Uniform (- 2) 2) [] (Scalar (lat ''delta_mean'')),
          Observed ''y'' (NumpyroDist gp) (Array (take_inds y inds)),
          Deterministic ''pred_a''
            (Array (condition_loc gp (take_inds y inds) (t_grid, replicate (length t_grid) 0))),
          Deterministic ''pred_b''
            (Array (condition_loc gp (take_inds y inds) (t_grid, replicate (length t_grid) 1)))])"

section \<open>Quasar time delay: the grid of starting lags\<close>

text \<open>
  \<^verbatim>\<open>
  opt = jaxopt.ScipyMinimize(fun=loss)

  init = dict(true_params)
  minimum = loss(init), init
  lags = []
  vals = []
  for lag in jnp.linspace(0, 1000, 100):
      init["lag"] = lag
      soln = opt.run(init)
      lags.append(soln.params["lag"])
      vals.append(soln.state.fun_val)
      if soln.state.fun_val < minimum[0]:
          minimum = soln.state.fun_val, soln.params
  init = minimum[1]
  \<close>
  A Python dictionary is an object: \<open>init\<close> and the second component of \<open>minimum\<close>
  are references, and \<open>init["lag"] = lag\<close> changes the object \<open>init\<close> refers to. The
  model keeps the dictionaries in a store indexed by address; \<open>dict(true_params)\<close>
  and every \<open>soln.params\<close> are new objects at the next free address. The optimizer
  is a library function of its starting point that either raises or returns a
  solution. The field \<open>calls\<close> is instrumentation: the starting points \<open>opt.run\<close> has
  been invoked with, in order. The loss values are real numbers (no NaN).
\<close>

record soln =
  soln_params :: params
  fun_val :: real

record grid_state =
  heap :: "nat \<Rightarrow> params"
  next_addr :: nat
  init :: nat
  minimum :: "real \<times> nat"
  lags :: "real list"
  vals :: "real list"
  calls :: "params list"

definition grid_start :: "(params \<Rightarrow> real) \<Rightarrow> (nat \<Rightarrow> params) \<Rightarrow> nat \<Rightarrow> grid_state" where
  \<comment> \<open>the state before the loop, from a store \<open>h\<close> whose first free address is \<open>n\<close>\<close>
  "grid_start loss_fn h n =
     \<lparr>heap = h(n := true_params), next_addr = Suc n, init = n,
      minimum = (loss_fn true_params, n), lags = [], vals = [], calls = []\<rparr>"

definition grid_step :: "(params \<Rightarrow> error + soln) \<Rightarrow> grid_state \<Rightarrow> real \<Rightarrow> grid_state outcome" where
  "grid_step opt_run s g =
     (let s1 = s\<lparr>heap := (heap s)(init s := (heap s (init s))\<lparr>lag := g\<rparr>)\<rparr>;
          s2 = s1\<lparr>calls := calls s1 @ [heap s1 (init s1)]\<rparr>
      in case opt_run (heap s1 (init s1)) of
           Inl e \<Rightarrow> Aborted e s2
         | Inr sol \<Rightarrow>
             (let a = next_addr s2;
                  s3 = s2\<lparr>heap := (heap s2)(a := soln_params sol), next_addr := Suc a\<rparr>;
                  s4 = s3\<lparr>lags := lags s3 @ [lag (soln_params sol)]\<rparr>;
                  s5 = s4\<lparr>vals := vals s4 @ [fun_val sol]\<rparr>
              in Completed (if fun_val sol < fst (minimum s5)
                            then s5\<lparr>minimum := (fun_val sol, a)\<rparr> else s5)))"

fun grid_loop :: "(params \<Rightarrow> error + soln) \<Rightarrow> grid_state \<Rightarrow> real list \<Rightarrow> grid_state outcome" where
  "grid_loop opt_run s [] = Completed s"
| "grid_loop opt_run s (g # gs) =
     (case grid_step opt_run s g of
        Aborted e s' \<Rightarrow> Aborted e s'
      | Completed s' \<Rightarrow> grid_loop opt_run s' gs)"

definition lag_grid :: "real list" where
  "lag_grid = linspace 0 1000 100"

definition grid_search ::
  "(params \<Rightarrow> real) \<Rightarrow> (params \<Rightarrow> error + soln) \<Rightarrow> (nat \<Rightarrow> params) \<Rightarrow> nat \<Rightarrow> grid_state outcome" where
  "grid_search loss_fn opt_run h n =
     (case grid_loop opt_run (grid_start loss_fn h n) lag_grid of
        Aborted e s \<Rightarrow> Aborted e s
      | Completed s \<Rightarrow> Completed (s\<lparr>init := snd (minimum s)\<rparr>))"

definition selected :: "grid_state \<Rightarrow> params" where
  \<comment> \<open>the dictionary \<open>minimum[1]\<close>\<close>
  "selected s = heap s (snd (minimum s))"

section \<open>Transit: the light curve, the simulation and the NumPyro model\<close>

text \<open>
  \<^verbatim>\<open>
  def light_curve(params, t, period=1.0):
      lc = QuadLightCurve.init(u1=params["u"][0], u2=params["u"][1])
      orbit = TransitOrbit.init(
          period=period,
          duration=jnp.exp(params["log_duration"]),
          time_transit=params["t0"],
          impact_param=params["b"],
          radius=jnp.exp(params["log_r"]),
      )
      return jnp.exp(params["log_f0"]) * (1 + lc.light_curve(orbit, t)[0])

  def build_gp(params, t, diag):
      kernel = jnp.exp(2 * params["log_amp"]) * kernels.quasisep.Matern32(
          jnp.exp(params["log_ell"])
      )
      return GaussianProcess(kernel, t, diag=diag, mean=partial(light_curve, params))
  \<close>
  The parameter dictionary has six keys that are always there and two, \<open>log_amp\<close> and
  \<open>log_ell\<close>, that the model adds only with the Gaussian process; reading a key that
  is not there raises \<open>KeyError\<close>. \<open>flux u1 u2 orbit t\<close> is the library's
  \<open>QuadLightCurve.init(u1=u1, u2=u2).light_curve(orbit, t)[0]\<close>.
\<close>

record transit_params =
  p_log_f0 :: real
  p_u :: "real list"
  p_log_duration :: real
  p_t0 :: real
  p_b :: real
  p_log_r :: real
  p_log_amp :: "real option"
  p_log_ell :: "real option"

record orbit =
  period :: real
  duration :: real
  time_transit :: real
  impact_param :: real
  radius :: real

type_synonym transit_gp = "(quasisep, real list, real, real list \<Rightarrow> real list) gaussian_process"

definition light_curve_orbit :: "transit_params \<Rightarrow> orbit" where
  \<comment> \<open>the local \<open>orbit\<close> of \<open>light_curve\<close>, with the default \<open>period=1.0\<close>\<close>
  "light_curve_orbit ps =
     \<lparr>period = 1, duration = exp (p_log_duration ps), time_transit = p_t0 ps,
      impact_param = p_b ps, radius = exp (p_log_r ps)\<rparr>"

definition light_curve ::
  "(real \<Rightarrow> real \<Rightarrow> orbit \<Rightarrow> real list \<Rightarrow> real list) \<Rightarrow> transit_params \<Rightarrow> real list \<Rightarrow> real list" where
  "light_curve flux ps t =
     map (\<lambda>f. exp (p_log_f0 ps) * (1 + f))
       (flux (jnp_getitem (p_u ps) 0) (jnp_getitem (p_u ps) 1) (light_curve_orbit ps) t)"

definition transit_build_gp ::
  "(real \<Rightarrow> real \<Rightarrow> orbit \<Rightarrow> real list \<Rightarrow> real list) \<Rightarrow> transit_params \<Rightarrow> real list \<Rightarrow> real \<Rightarrow>
   error + transit_gp" where
  "transit_build_gp flux ps t diag =
     (case p_log_amp ps of
        None \<Rightarrow> Inl (KeyError ''log_amp'')
      | Some amp \<Rightarrow>
          (case p_log_ell ps of
             None \<Rightarrow> Inl (KeyError ''log_ell'')
           | Some ell \<Rightarrow>
               Inr \<lparr>gp_kernel = Quasisep_Scaled (exp (2 * amp)) (Quasisep_Matern32 (exp ell)),
                    gp_X = t, gp_diag = diag, gp_mean = light_curve flux ps\<rparr>))"

text \<open>
  \<^verbatim>\<open>
  t_grid = jnp.linspace(-0.3, 0.3, 1000)
  t = jnp.linspace(-0.2, 0.2, 75)
  y_err = 0.001

  true_params = {
      "log_f0": 0.0,
      "u": jnp.array([0.3, 0.2]),
      "log_duration": jnp.log(0.12),
      "t0": 0.0,
      "b": 0.1,
      "log_r": jnp.log(0.1),
      "log_amp": jnp.log(0.002),
      "log_ell": jnp.log(0.02),
  }

  gp = build_gp(true_params, t, diag=y_err**2)
  y = gp.sample(jax.random.PRNGKey(1047))
  \<close>
\<close>

definition transit_t_grid :: "real list" where
  "transit_t_grid = linspace (- 0.3) 0.3 1000"

definition transit_true_params :: transit_params where
  "transit_true_params =
     \<lparr>p_log_f0 = 0, p_u = [0.3, 0.2], p_log_duration = ln 0.12, p_t0 = 0, p_b = 0.1,
      p_log_r = ln 0.1, p_log_amp = Some (ln 0.002), p_log_ell = Some (ln 0.02)\<rparr>"

definition transit_simulate ::
  "(real \<Rightarrow> real \<Rightarrow> orbit \<Rightarrow> real list \<Rightarrow> real list) \<Rightarrow> (transit_gp \<Rightarrow> prng_key \<Rightarrow> real list) \<Rightarrow>
   error + real list \<times> real list \<times> real" where
  \<comment> \<open>the observation set \<open>(t, y, y_err)\<close> the cell leaves\<close>
  "transit_simulate flux gp_sample =
     (let t = linspace (- 0.2) 0.2 75;
          y_err = 0.001
      in case transit_build_gp flux transit_true_params t (y_err ^ 2) of
           Inl e \<Rightarrow> Inl e
         | Inr gp \<Rightarrow> Inr (t, gp_sample gp (PRNGKey 1047), y_err))"

text \<open>
  \<^verbatim>\<open>
  def model(t, y_err, y=None, use_gp=True):
      # If we wanted to fit for all the parameters, we could use the following,
      # but we'll keep these fixed for simplicity.
      # log_duration = numpyro.sample("log_duration", dist.Uniform(jnp.log(0.08), jnp.log(0.2)))
      # b = numpyro.sample("b", dist.Uniform(0.0, 1.0))

      log_jitter = numpyro.sample("log_jitter", dist.Normal(jnp.log(y_err), 1.0))
      log_f0 = numpyro.sample("log_f0", dist.Normal(0.0, 0.01))
      u = numpyro.sample("u", distx.QuadLDParams())
      t0 = numpyro.sample("t0", dist.Normal(0.0, 0.1))
      log_r = numpyro.sample("log_r", dist.Normal(jnp.log(0.1), 2.0))
      numpyro.deterministic("r", jnp.exp(log_r))
      params = {
          "log_f0": log_f0,
          "u": u,
          "log_duration": jnp.log(0.12),
          "t0": t0,
          "b": 0.1,
          "log_r": log_r,
      }

      if use_gp:
          params["log_amp"] = numpyro.sample("log_amp", dist.Normal(0.0, 2.0))
          params["log_ell"] = numpyro.sample("log_ell", dist.Normal(0.0, 2.0))
          gp = build_gp(params, t, diag=y_err**2 + jnp.exp(2 * log_jitter))
          numpyro.sample("y", gp.numpyro_dist(), obs=y)
          mu = gp.mean_function(t_grid)
          numpyro.deterministic("mu", mu)
          numpyro.deterministic("gp", gp.condition(y, t_grid, include_mean=False).gp.loc)

      else:
          numpyro.sample(
              "y",
              dist.Normal(
                  light_curve(params, t), jnp.sqrt(y_err**2 + jnp.exp(2 * log_jitter))
              ),
              obs=y,
          )
          numpyro.deterministic("mu", light_curve(params, t_grid))
  \<close>
  \<open>lat\<close> gives the value of each scalar latent site and \<open>lat_u\<close> the value of the site
  \<open>u\<close>. A site declared with \<open>obs=None\<close> is a latent site; its value \<open>lat_y\<close> is the
  engine's. \<open>condition_loc gp y t_grid\<close> is the library's
  \<open>gp.condition(y, t_grid, include_mean=False).gp.loc\<close>.
\<close>

definition transit_model_params :: "(string \<Rightarrow> real) \<Rightarrow> real list \<Rightarrow> bool \<Rightarrow> transit_params" where
  \<comment> \<open>the dictionary \<open>params\<close> when the model has built it\<close>
  "transit_model_params lat lat_u use_gp =
     (let ps = \<lparr>p_log_f0 = lat ''log_f0'', p_u = lat_u, p_log_duration = ln 0.12,
                 p_t0 = lat ''t0'', p_b = 0.1, p_log_r = lat ''log_r'',
                 p_log_amp = None, p_log_ell = None\<rparr>
      in if use_gp
         then ps\<lparr>p_log_amp := Some (lat ''log_amp''), p_log_ell := Some (lat ''log_ell'')\<rparr>
         else ps)"

definition sample_obs :: "string \<Rightarrow> 'g dist \<Rightarrow> real list option \<Rightarrow> real list \<Rightarrow> 'g site" where
  \<comment> \<open>\<open>numpyro.sample(name, d, obs=y)\<close> for an array \<open>y\<close> that may be \<open>None\<close>\<close>
  "sample_obs name d obs lat_y =
     (case obs of None \<Rightarrow> Sample name d [] (Array lat_y) | Some v \<Rightarrow> Observed name d (Array v))"

definition transit_model ::
  "(real \<Rightarrow> real \<Rightarrow> orbit \<Rightarrow> real list \<Rightarrow> real list) \<Rightarrow>
   (transit_gp \<Rightarrow> real list option \<Rightarrow> real list \<Rightarrow> real list) \<Rightarrow>
   (string \<Rightarrow> real) \<Rightarrow> real list \<Rightarrow> real list \<Rightarrow>
   real list \<Rightarrow> real \<Rightarrow> real list option \<Rightarrow> bool \<Rightarrow> error + transit_gp site list" where
  "transit_model flux condition_loc lat lat_u lat_y t y_err y use_gp =
     (let log_jitter = lat ''log_jitter'';
          latent =
            [Sample ''log_jitter'' (Normal (ln y_err) 1) [] (Scalar log_jitter),
             Sample ''log_f0'' (Normal 0 0.01) [] (Scalar (lat ''log_f0'')),
             Sample ''u'' QuadLDParams [] (Array lat_u),
             Sample ''t0'' (Normal 0 0.1) [] (Scalar (lat ''t0'')),
             Sample ''log_r'' (Normal (ln 0.1) 2) [] (Scalar (lat ''log_r'')),
             Deterministic ''r'' (Scalar (exp (lat ''log_r'')))];
          ps = transit_model_params lat lat_u use_gp
      in if use_gp
         then (case transit_build_gp flux ps t (y_err ^ 2 + exp (2 * log_jitter)) of
                 Inl e \<Rightarrow> Inl e
               | Inr gp \<Rightarrow>
                   Inr (latent @
                     [Sample ''log_amp'' (Normal 0 2) [] (Scalar (lat ''log_amp'')),
                      Sample ''log_ell'' (Normal 0 2) [] (Scalar (lat ''log_ell'')),
                      sample_obs ''y'' (NumpyroDist gp) y lat_y,
                      Deterministic ''mu'' (Array (gp_mean gp transit_t_grid)),
                      Deterministic ''gp'' (Array (condition_loc gp y transit_t_grid))]))
         else Inr (latent @
                [sample_obs ''y''
                   (NormalArray (light_curve flux ps t) (sqrt (y_err ^ 2 + exp (2 * log_jitter)))) y lat_y,
                 Deterministic ''mu'' (Array (light_curve flux ps transit_t_grid))]))"

section \<open>The cells that invoke a sampler or an optimizer\<close>






























section \<open>The global names of a notebook and the statements that bind them\<close>

text \<open>
  The observations of a notebook are the values of global names: \<open>t\<close>, \<open>y\<close> and \<open>yerr\<close>
  in the assessment notebook, \<open>X\<close>, \<open>y\<close> and \<open>diag\<close> in the quasar notebook, \<open>t\<close>, \<open>y\<close>
  and \<open>y_err\<close> in the transit notebook. They are JAX arrays, a tuple of JAX arrays or
  a float: objects that cannot be changed in place, so the value of such a name
  changes only when a statement binds the name again. A statement that changes a
  mutable object in place (\<open>init["lag"] = lag\<close>, \<open>lags.append(...)\<close>,
  \<open>sampler.run(...)\<close>) is counted as binding the name of that object.

  The environment maps each global name to its value. A statement is the name it
  binds and the value of its right-hand side as a function of the environment; a
  cell is the list of its statements in the order they run. Statements inside a
  \<open>def\<close> bind local names and are not statements of the cell; a \<open>def\<close> binds the name
  of the function, an \<open>import\<close> the imported name, a \<open>for\<close> its loop variable.

  For each notebook, \<open>later_targets\<close> lists, cell by cell, the names bound by the
  cells after the one that generates the observations.
\<close>

type_synonym 'v env = "string \<Rightarrow> 'v option"

type_synonym 'v stmt = "string \<times> ('v env \<Rightarrow> 'v)"

definition exec_stmt :: "'v stmt \<Rightarrow> 'v env \<Rightarrow> 'v env" where
  "exec_stmt st env = env(fst st \<mapsto> snd st env)"

definition run_cell :: "'v stmt list \<Rightarrow> 'v env \<Rightarrow> 'v env" where
  "run_cell c env = fold exec_stmt c env"

datatype notebook = Assessment | Quasar | Transit

fun observation_names :: "notebook \<Rightarrow> string list" where
  "observation_names Assessment = [''t'', ''y'', ''yerr'']"
| "observation_names Quasar = [''X'', ''y'', ''diag'']"
| "observation_names Transit = [''t'', ''y'', ''y_err'']"

fun later_targets :: "notebook \<Rightarrow> string list list" where
  "later_targets Assessment =
     [[''model'', ''build_exp_sq'', ''build_matern'', ''build_raquad'',
       ''sampler_exp_sq'', ''sampler_matern'', ''sampler_raquad''],
      [''t_pred'', ''mod'', ''soln'', ''samp''],
      [''sampler_exp_sq'', ''inf_exp_sq''],
      [''sampler_matern'', ''inf_matern''],
      [''sampler_raquad'', ''inf_raquad''],
      [],
      [''NestedSampler'', ''ns_exp_sq'', ''ns_exp_sq''],
      [''ns_matern'', ''ns_matern''],
      [''ns_raquad'', ''ns_raquad''],
      [''log_Z'', ''log_Z_uncert'', ''names''],
      [''fig'', ''axes'', ''ax'', ''ax'', ''log_Z'', ''log_Z_uncert'', ''names'', ''ax'']]"
| "later_targets Quasar =
     [[''opt'', ''init'', ''minimum'', ''lags'', ''vals'']
        @ concat (replicate 100 [''lag'', ''init'', ''soln'', ''lags'', ''vals'', ''minimum''])
        @ [''init''],
      [''t_lagged'', ''t_grid''],
      [''model'', ''init_params'', ''init_params'', ''init_params'', ''sampler'', ''sampler''],
      [''inf_data''],
      [''fig''],
      [''samples'', ''lag'', ''pred_a'', ''pred_b'', ''inds'', ''offset'', ''a'', ''b'']]"
| "later_targets Transit =
     [[''model''],
      [''sampler_wn'', ''sampler_wn'', ''inf_data_wn''],
      [''sampler'', ''sampler'', ''inf_data''],
      [''p1'', ''p2'', ''ranges'', ''fig'', ''fig''],
      [''samples'', ''pred_gp'', ''pred'', ''samples_wn'', ''pred_wn'', ''inds'']]"

definition later_cell :: "notebook \<Rightarrow> 'v stmt list \<Rightarrow> bool" where
  \<comment> \<open>a run of one of the later cells, to its end or up to an exception: statements
      that bind names of that cell, whatever their right-hand sides compute\<close>
  "later_cell nb c = (\<exists>tg \<in> set (later_targets nb). set (map fst c) \<subseteq> set tg)"

section \<open>The train / held-out split is a partition\<close>

lemma length_at_first_set: "length (at_first_set k v xs) = length xs"
  by (simp add: at_first_set_def)

lemma length_at_last_set: "length (at_last_set k v xs) = length xs"
  by (auto simp: at_last_set_def min_def)

lemma length_mask_train: "length (mask_train u) = length u"
  by (simp add: mask_train_def length_at_first_set length_at_last_set)

lemma nth_at_first_set:
  "i < length xs \<Longrightarrow> at_first_set k v xs ! i = (if i < k then v else xs ! i)"
  by (auto simp: at_first_set_def nth_append)

lemma nth_at_last_set:
  "i < length xs \<Longrightarrow> 0 < k \<Longrightarrow>
   at_last_set k v xs ! i = (if length xs - k \<le> i then v else xs ! i)"
  by (auto simp: at_last_set_def nth_append min_def)

lemma nth_mask_train:
  "i < length u \<Longrightarrow>
   mask_train u ! i = (\<not> i < 10 \<and> \<not> length u - 10 \<le> i \<and> u ! i < 0.7)"
  by (simp add: mask_train_def nth_at_last_set nth_at_first_set length_at_first_set)

lemma length_bool_index:
  "length xs = length m \<Longrightarrow> length (bool_index xs m) = length (filter id m)"
  unfolding bool_index_def
  by (induction xs m rule: list_induct2) auto

lemma length_true_positions: "length (true_positions m) = length (filter id m)"
proof (induction m rule: rev_induct)
  case Nil
  then show ?case by (simp add: true_positions_def)
next
  case (snoc b m)
  have "filter (\<lambda>i. (m @ [b]) ! i) [0..<length m] = filter (\<lambda>i. m ! i) [0..<length m]"
    by (rule filter_cong) (auto simp: nth_append)
  with snoc show ?case
    by (simp add: true_positions_def nth_append)
qed

lemma filter_invert: "filter id (invert m) = map Not (filter Not m)"
  by (induction m) (auto simp: invert_def)

lemma filter_id_invert: "length (filter id m) + length (filter id (invert m)) = length m"
  by (induction m) (auto simp: invert_def)

text \<open>
  C1. For every array of uniform draws of length \<open>N\<close> (every seed, every observation
  count) and every data array \<open>t\<close> of that length: the mask has \<open>N\<close> entries; the
  training positions and the held-out positions are disjoint and together are all of
  \<open>0 ..< N\<close>; every position among the first ten and the last ten is \<open>False\<close>; the training
  set \<open>t[mask_train]\<close> has as many elements as the mask has \<open>True\<close> entries, the held-out
  set \<open>t[~mask_train]\<close> as many as it has \<open>False\<close> entries, and the two sizes sum to \<open>N\<close>
  (to 120 when \<open>N = 120\<close>).
\<close>

theorem mask_train_partition:
  assumes "length u = N" and "length t = N"
  shows "length (mask_train u) = N
    \<and> set (true_positions (mask_train u)) \<union> set (true_positions (invert (mask_train u))) = {..<N}
    \<and> set (true_positions (mask_train u)) \<inter> set (true_positions (invert (mask_train u))) = {}
    \<and> (\<forall>i<N. i < 10 \<or> N - 10 \<le> i \<longrightarrow> \<not> mask_train u ! i)
    \<and> length (bool_index t (mask_train u)) = length (filter id (mask_train u))
    \<and> length (bool_index t (invert (mask_train u))) = length (filter Not (mask_train u))
    \<and> length (bool_index t (mask_train u)) + length (bool_index t (invert (mask_train u))) = N
    \<and> (N = 120 \<longrightarrow>
         length (bool_index t (mask_train u)) + length (bool_index t (invert (mask_train u))) = 120)"
proof -
  let ?m = "mask_train u"
  have len: "length ?m = N" using assms by (simp add: length_mask_train)
  have leni: "length (invert ?m) = N" using len by (simp add: invert_def)
  have cover: "set (true_positions ?m) \<union> set (true_positions (invert ?m)) = {..<N}"
    using len by (auto simp: true_positions_def invert_def)
  have disj: "set (true_positions ?m) \<inter> set (true_positions (invert ?m)) = {}"
    using len by (auto simp: true_positions_def invert_def)
  have edge: "\<forall>i<N. i < 10 \<or> N - 10 \<le> i \<longrightarrow> \<not> ?m ! i"
    using assms by (auto simp: nth_mask_train)
  have tr: "length (bool_index t ?m) = length (filter id ?m)"
    using assms len by (simp add: length_bool_index)
  have fn: "filter id (invert ?m) = map Not (filter Not ?m)"
    by (rule filter_invert)
  have ho: "length (bool_index t (invert ?m)) = length (filter Not ?m)"
    using assms leni by (simp add: length_bool_index fn)
  have total: "length (bool_index t ?m) + length (bool_index t (invert ?m)) = N"
    using tr assms leni len filter_id_invert [of ?m] by (simp add: length_bool_index)
  from len cover disj edge tr ho total show ?thesis by simp
qed

theorem mask_train_partition_witness:
  "length (replicate 120 (1/2 :: real)) = 120 \<and> length (replicate 120 (0::real)) = 120
   \<and> length (bool_index (replicate 120 (0::real)) (mask_train (replicate 120 (1/2))))
     + length (bool_index (replicate 120 (0::real)) (invert (mask_train (replicate 120 (1/2))))) = 120
   \<and> \<not> mask_train (replicate 120 (1/2)) ! 9
   \<and> \<not> mask_train (replicate 120 (1/2)) ! 110"
proof -
  have h1: "length (replicate 120 (1/2 :: real)) = 120" by simp
  have h2: "length (replicate 120 (0 :: real)) = 120" by simp
  note r = mask_train_partition [OF h1 h2]
  from r have a: "length (bool_index (replicate 120 (0::real)) (mask_train (replicate 120 (1/2))))
     + length (bool_index (replicate 120 (0::real)) (invert (mask_train (replicate 120 (1/2))))) = 120"
    by blast
  from r have e: "\<forall>i<120. i < 10 \<or> (120::nat) - 10 \<le> i \<longrightarrow> \<not> mask_train (replicate 120 (1/2)) ! i"
    by blast
  from e have b: "\<not> mask_train (replicate 120 (1/2)) ! 9" by simp
  from e have c: "\<not> mask_train (replicate 120 (1/2)) ! 110" by simp
  from h1 h2 a b c show ?thesis by blast
qed


section \<open>The fits are conditioned on the training data only\<close>


lemma assessment_model_Some:
  "assessment_model lib kb lat t_train y_train (Some tt) y_test None =
     fst (kb lat) @
     [Factor ''log_prob_train''
        (fst (gp_condition lib \<lparr>gp_kernel = snd (kb lat), gp_X = t_train, gp_diag = yerr ^ 2, gp_mean = ()\<rparr>
               y_train tt (yerr ^ 2))),
      Deterministic ''log_prob_test''
        (Scalar (cond_log_probability lib
           (snd (gp_condition lib \<lparr>gp_kernel = snd (kb lat), gp_X = t_train, gp_diag = yerr ^ 2, gp_mean = ()\<rparr>
               y_train tt (yerr ^ 2))) y_test))]"
  by (simp add: assessment_model_def case_prod_beta Let_def)

text \<open>
  C5. Each of the three fits (and a fit with any kernel builder) is conditioned on the
  training data only. Two observation arrays that agree at the training positions, so
  that the runs differ only in the held-out values, give the same target log-density
  at every value of the latent sites, the same sites other than deterministic ones and
  the same site names; a site that differs is the deterministic site
  \<open>log_prob_test\<close>. More generally the log-density of the model does not depend on its
  argument \<open>y_test\<close>.
\<close>

theorem fit_conditioned_on_training_only:
  assumes "bool_index y m = bool_index y' m"
  shows "fit_target log_prob lib kernel_builder t y m lat = fit_target log_prob lib kernel_builder t y' m lat
    \<and> filter (\<lambda>s. \<not> is_deterministic s) (fit_model lib kernel_builder t y m lat)
      = filter (\<lambda>s. \<not> is_deterministic s) (fit_model lib kernel_builder t y' m lat)
    \<and> map site_name (fit_model lib kernel_builder t y m lat)
      = map site_name (fit_model lib kernel_builder t y' m lat)
    \<and> (\<forall>i < length (fit_model lib kernel_builder t y m lat).
          fit_model lib kernel_builder t y m lat ! i \<noteq> fit_model lib kernel_builder t y' m lat ! i
          \<longrightarrow> (\<exists>v. fit_model lib kernel_builder t y m lat ! i = Deterministic ''log_prob_test'' v))
    \<and> log_density log_prob (assessment_model lib kernel_builder lat t_train y_train t_test y_test1 t_pred)
      = log_density log_prob (assessment_model lib kernel_builder lat t_train y_train t_test y_test2 t_pred)"
proof -
  let ?a = "fit_model lib kernel_builder t y m lat" and ?b = "fit_model lib kernel_builder t y' m lat"
  have c1: "fit_target log_prob lib kernel_builder t y m lat = fit_target log_prob lib kernel_builder t y' m lat"
    using assms by (simp add: fit_target_def fit_model_def assessment_model_Some log_density_def)
  have c2: "filter (\<lambda>s. \<not> is_deterministic s) ?a = filter (\<lambda>s. \<not> is_deterministic s) ?b"
    using assms by (simp add: fit_model_def assessment_model_Some)
  have c3: "map site_name ?a = map site_name ?b"
    by (simp add: fit_model_def assessment_model_Some)
  have c4: "\<forall>i < length ?a. ?a ! i \<noteq> ?b ! i \<longrightarrow> (\<exists>v. ?a ! i = Deterministic ''log_prob_test'' v)"
    using assms by (auto simp: fit_model_def assessment_model_Some nth_append nth_Cons split: nat.splits)
  have c5: "log_density log_prob (assessment_model lib kernel_builder lat t_train y_train t_test y_test1 t_pred)
      = log_density log_prob (assessment_model lib kernel_builder lat t_train y_train t_test y_test2 t_pred)"
    by (cases t_test; cases t_pred)
       (simp_all add: assessment_model_def case_prod_beta Let_def log_density_def)
  show ?thesis by (intro conjI c1 c2 c3 c4 c5)
qed


theorem fit_conditioned_on_training_only_witness:
  "bool_index [1, 2 :: real] [True, False] = bool_index [1, 5] [True, False]
   \<and> fit_target (\<lambda>d v. 0)
        \<lparr>gp_condition = (\<lambda>gp ytr tt d. (sum_list ytr, sum_list ytr)),
         cond_log_probability = (\<lambda>c yt. case yt of None \<Rightarrow> c | Some v \<Rightarrow> c + sum_list v),
         cond_loc = (\<lambda>c. []), cond_variance = (\<lambda>c. [])\<rparr>
        build_exp_sq [0, 1] [1, 2] [True, False] (\<lambda>n. 1)
     = fit_target (\<lambda>d v. 0)
        \<lparr>gp_condition = (\<lambda>gp ytr tt d. (sum_list ytr, sum_list ytr)),
         cond_log_probability = (\<lambda>c yt. case yt of None \<Rightarrow> c | Some v \<Rightarrow> c + sum_list v),
         cond_loc = (\<lambda>c. []), cond_variance = (\<lambda>c. [])\<rparr>
        build_exp_sq [0, 1] [1, 5] [True, False] (\<lambda>n. 1)
   \<and> fit_model
        \<lparr>gp_condition = (\<lambda>gp ytr tt d. (sum_list ytr, sum_list ytr)),
         cond_log_probability = (\<lambda>c yt. case yt of None \<Rightarrow> c | Some v \<Rightarrow> c + sum_list v),
         cond_loc = (\<lambda>c. []), cond_variance = (\<lambda>c. [])\<rparr>
        build_exp_sq [0, 1] [1, 2] [True, False] (\<lambda>n. 1) ! 3 = Deterministic ''log_prob_test'' (Scalar 3)
   \<and> fit_model
        \<lparr>gp_condition = (\<lambda>gp ytr tt d. (sum_list ytr, sum_list ytr)),
         cond_log_probability = (\<lambda>c yt. case yt of None \<Rightarrow> c | Some v \<Rightarrow> c + sum_list v),
         cond_loc = (\<lambda>c. []), cond_variance = (\<lambda>c. [])\<rparr>
        build_exp_sq [0, 1] [1, 5] [True, False] (\<lambda>n. 1) ! 3 = Deterministic ''log_prob_test'' (Scalar 6)"
proof -
  have h: "bool_index [1, 2 :: real] [True, False] = bool_index [1, 5] [True, False]"
    by (simp add: bool_index_def)
  note r = fit_conditioned_on_training_only [OF h, THEN conjunct1]
  show ?thesis
    by (intro conjI h r)
       (simp_all add: fit_model_def assessment_model_Some build_exp_sq_def bool_index_def invert_def)
qed

section \<open>The multiband kernel and the sorted process inputs\<close>


lemma jnp_getitem_swap:
  "length a = 2 \<Longrightarrow> b = 0 \<or> b = 1 \<Longrightarrow> jnp_getitem (swap_bands a) (1 - b) = jnp_getitem a b"
  by (auto simp: jnp_getitem_def swap_bands_def)

text \<open>
  C4. For every wrapped kernel, every library combination \<open>E\<close>, every amplitudes array
  of two entries and every pair of coordinates \<open>X1 = (t1, b1)\<close>, \<open>X2 = (t2, b2)\<close> with
  band indices 0 or 1: exchanging the two amplitudes and renaming the band of both
  coordinates leaves the covariance unchanged.
\<close>

theorem multiband_relabel_symmetry:
  assumes "length (amplitudes self) = 2"
    and "snd X1 \<in> {0, 1}" and "snd X2 \<in> {0, 1}"
  shows "evaluate E inner (self\<lparr>amplitudes := swap_bands (amplitudes self)\<rparr>) (relabel X1) (relabel X2)
       = evaluate E inner self X1 X2"
  using assms
  by (auto simp: evaluate_def observation_model_def coord_to_sortable_def relabel_def jnp_getitem_swap)

lemma mset_argsort: "mset (argsort ts) = mset [0..<length ts]"
proof -
  have "mset (argsort ts) = image_mset snd (mset (sort_key fst (zip ts [0..<length ts])))"
    by (simp add: argsort_def)
  also have "\<dots> = image_mset snd (mset (zip ts [0..<length ts]))" by simp
  also have "\<dots> = mset (map snd (zip ts [0..<length ts]))" by (simp only: mset_map)
  also have "\<dots> = mset [0..<length ts]" by (simp only: map_snd_zip length_upt diff_zero)
  finally show ?thesis .
qed

lemma length_argsort: "length (argsort ts) = length ts"
  by (simp add: argsort_def)

lemma set_argsort: "set (argsort ts) = {..<length ts}"
  using mset_argsort [of ts] by (metis atLeast_upt set_mset_mset)

lemma distinct_argsort: "distinct (argsort ts)"
  using mset_argsort [of ts] by (metis distinct_upt mset_eq_imp_distinct_iff)

lemma take_inds_argsort: "take_inds ts (argsort ts) = map fst (sort_key fst (zip ts [0..<length ts]))"
proof -
  have "\<forall>p \<in> set (sort_key fst (zip ts [0..<length ts])). ts ! snd p = fst p"
    by (auto simp: set_zip)
  then show ?thesis
    by (simp add: take_inds_def argsort_def)
qed

lemma sorted_take_inds_argsort: "sorted (take_inds ts (argsort ts))"
  by (simp add: take_inds_argsort)


lemma length_at_set: "length (at_set a inds vs) = length a"
proof -
  have "length (fold (\<lambda>(i, v) acc. acc[i := v]) ps a) = length a" for ps :: "(nat \<times> 'a) list"
    by (induction ps arbitrary: a) auto
  then show ?thesis by (simp add: at_set_def)
qed

lemma at_set_Cons: "at_set a (i # inds) (v # vs) = at_set (a[i := v]) inds vs"
  by (simp add: at_set_def)

lemma at_set_nth_other:
  "length vs = length inds \<Longrightarrow> i \<notin> set inds \<Longrightarrow> at_set a inds vs ! i = a ! i"
proof (induction inds vs arbitrary: a rule: list_induct2')
  case (4 j inds v vs)
  then show ?case by (simp add: at_set_Cons)
qed (simp_all add: at_set_def)

lemma at_set_nth_hit:
  "length vs = length inds \<Longrightarrow> distinct inds \<Longrightarrow> k < length inds \<Longrightarrow> inds ! k < length a \<Longrightarrow>
   at_set a inds vs ! (inds ! k) = vs ! k"
proof (induction inds vs arbitrary: a k rule: list_induct2')
  case (4 j inds v vs)
  show ?case
  proof (cases k)
    case 0
    with 4 show ?thesis by (simp add: at_set_Cons at_set_nth_other)
  next
    case (Suc k')
    with 4 show ?thesis by (simp add: at_set_Cons)
  qed
qed (simp_all add: at_set_def)

lemma take_inds_at_set:
  assumes "length vs = length inds" and "distinct inds" and "set inds \<subseteq> {..<length a}"
  shows "take_inds (at_set a inds vs) inds = vs"
proof (rule nth_equalityI)
  show "length (take_inds (at_set a inds vs) inds) = length vs"
    using assms by (simp add: take_inds_def)
next
  fix k assume "k < length (take_inds (at_set a inds vs) inds)"
  then have k: "k < length inds" by (simp add: take_inds_def)
  then have "inds ! k < length a" using assms(3) by (auto simp: subset_iff)
  with assms k show "take_inds (at_set a inds vs) inds ! k = vs ! k"
    by (simp add: take_inds_def at_set_nth_hit)
qed

lemma length_time_delay_transform:
  "length (fst X) = length (snd X) \<Longrightarrow> length (time_delay_transform l X) = length (fst X)"
  by (simp add: time_delay_transform_def)

lemma nth_time_delay_transform:
  "length (fst X) = length (snd X) \<Longrightarrow> i < length (fst X) \<Longrightarrow>
   time_delay_transform l X ! i = fst X ! i - l * of_int (snd X ! i)"
  by (simp add: time_delay_transform_def)

lemma snd_build_gp: "snd (build_gp ps X diag) = argsort (time_delay_transform (lag ps) X)"
  by (simp add: build_gp_def Let_def)

text \<open>
  C9. For every parameter set and every observation set whose arrays have one length
  \<open>n\<close>: the positions \<open>inds\<close> that \<open>build_gp\<close> returns are a permutation of \<open>0 ..< n\<close>;
  the times the process is given are in non-decreasing order; its \<open>k\<close>-th time, band
  and noise variance are the lag-transformed time, the band and the variance of the
  one observation \<open>inds[k]\<close>. At every call site the observation values go with the
  same permutation: \<open>loss\<close> hands \<open>log_probability\<close> the values \<open>y[inds]\<close>; the NumPyro
  model observes \<open>y[inds]\<close> at the site \<open>y\<close> and conditions on \<open>y[inds]\<close> for both
  \<open>pred_a\<close> and \<open>pred_b\<close>; and the generation cell, which writes a sample through
  \<open>.at[inds].set\<close>, leaves the coordinates and variances as they were and stores the
  \<open>k\<close>-th sampled value at observation \<open>inds[k]\<close>.
\<close>

theorem build_gp_sorted_consistent:
  assumes "length (fst X) = n" and "length (snd X) = n" and "length diag = n" and "length y = n"
  shows "let (gp, inds) = build_gp ps X diag in
      mset inds = mset [0..<n]
    \<and> sorted (fst (gp_X gp))
    \<and> length (fst (gp_X gp)) = n \<and> length (snd (gp_X gp)) = n \<and> length (gp_diag gp) = n
    \<and> (\<forall>k<n. fst (gp_X gp) ! k = fst X ! (inds ! k) - lag ps * of_int (snd X ! (inds ! k))
            \<and> snd (gp_X gp) ! k = snd X ! (inds ! k)
            \<and> gp_diag gp ! k = diag ! (inds ! k))
    \<and> fst (loss_args X diag y ps) = gp
    \<and> length (snd (loss_args X diag y ps)) = n
    \<and> (\<forall>k<n. snd (loss_args X diag y ps) ! k = y ! (inds ! k))
    \<and> (\<forall>log_probability.
          loss log_probability X diag y ps = - log_probability gp (map (\<lambda>k. y ! (inds ! k)) [0..<n]))
    \<and> (\<forall>lat lat_amps condition_loc t_grid. ps = quasar_model_params lat lat_amps \<longrightarrow>
          quasar_model condition_loc lat lat_amps t_grid X diag y ! 5
            = Observed ''y'' (NumpyroDist gp) (Array (map (\<lambda>k. y ! (inds ! k)) [0..<n]))
        \<and> quasar_model condition_loc lat lat_amps t_grid X diag y ! 6
            = Deterministic ''pred_a''
                (Array (condition_loc gp (map (\<lambda>k. y ! (inds ! k)) [0..<n])
                          (t_grid, replicate (length t_grid) 0)))
        \<and> quasar_model condition_loc lat lat_amps t_grid X diag y ! 7
            = Deterministic ''pred_b''
                (Array (condition_loc gp (map (\<lambda>k. y ! (inds ! k)) [0..<n])
                          (t_grid, replicate (length t_grid) 1))))
    \<and> (\<forall>uninit s. length uninit = n \<and> length s = n \<longrightarrow>
          length (at_set uninit inds s) = n \<and> (\<forall>k<n. at_set uninit inds s ! (inds ! k) = s ! k))
    \<and> (\<forall>gp_sample uninit data.
          ps = true_params \<and> X = quasar_X data \<and> diag = quasar_diag data
          \<and> length uninit = n \<and> length (gp_sample gp (PRNGKey 10)) = n \<longrightarrow>
          fst (quasar_simulate gp_sample uninit data) = X
        \<and> snd (snd (quasar_simulate gp_sample uninit data)) = diag
        \<and> length (fst (snd (quasar_simulate gp_sample uninit data))) = n
        \<and> (\<forall>k<n. fst (snd (quasar_simulate gp_sample uninit data)) ! (inds ! k)
                    = gp_sample gp (PRNGKey 10) ! k))"
proof -
  let ?t = "time_delay_transform (lag ps) X"
  let ?gp = "fst (build_gp ps X diag)"
  let ?inds = "snd (build_gp ps X diag)"
  have inds: "?inds = argsort ?t" by (rule snd_build_gp)
  have gX: "gp_X ?gp = (take_inds ?t ?inds, take_inds (snd X) ?inds)"
    and gd: "gp_diag ?gp = take_inds diag ?inds"
    by (simp_all add: build_gp_def Let_def)
  have lt: "length ?t = n" using assms by (simp add: length_time_delay_transform)
  have li: "length ?inds = n" using lt by (simp add: inds length_argsort)
  have c1: "mset ?inds = mset [0..<n]" using mset_argsort [of ?t] lt by (simp add: inds)
  have rng: "\<forall>k<n. ?inds ! k < n"
    using set_argsort [of ?t] lt li unfolding inds by (metis lessThan_iff nth_mem)
  have dst: "distinct ?inds" unfolding inds by (rule distinct_argsort)
  have c2: "sorted (fst (gp_X ?gp))"
    unfolding gX fst_conv inds by (rule sorted_take_inds_argsort)
  have c3: "length (fst (gp_X ?gp)) = n" "length (snd (gp_X ?gp)) = n" "length (gp_diag ?gp) = n"
    using li by (simp_all add: gX gd take_inds_def)
  have c4: "\<forall>k<n. fst (gp_X ?gp) ! k = fst X ! (?inds ! k) - lag ps * of_int (snd X ! (?inds ! k))
            \<and> snd (gp_X ?gp) ! k = snd X ! (?inds ! k)
            \<and> gp_diag ?gp ! k = diag ! (?inds ! k)"
    using rng li assms by (simp add: gX gd take_inds_def nth_time_delay_transform)
  have la: "loss_args X diag y ps = (?gp, take_inds y ?inds)"
    by (simp add: loss_args_def case_prod_beta)
  have c5: "fst (loss_args X diag y ps) = ?gp" by (simp add: la)
  have c6: "length (snd (loss_args X diag y ps)) = n" using li by (simp add: la take_inds_def)
  have c7: "\<forall>k<n. snd (loss_args X diag y ps) ! k = y ! (?inds ! k)"
    using li by (simp add: la take_inds_def)
  have map_eq: "take_inds y ?inds = map (\<lambda>k. y ! (?inds ! k)) [0..<n]"
    using li by (auto simp: take_inds_def intro: nth_equalityI)
  have c8: "\<forall>lat lat_amps condition_loc t_grid. ps = quasar_model_params lat lat_amps \<longrightarrow>
          quasar_model condition_loc lat lat_amps t_grid X diag y ! 5
            = Observed ''y'' (NumpyroDist ?gp) (Array (map (\<lambda>k. y ! (?inds ! k)) [0..<n]))
        \<and> quasar_model condition_loc lat lat_amps t_grid X diag y ! 6
            = Deterministic ''pred_a''
                (Array (condition_loc ?gp (map (\<lambda>k. y ! (?inds ! k)) [0..<n])
                          (t_grid, replicate (length t_grid) 0)))
        \<and> quasar_model condition_loc lat lat_amps t_grid X diag y ! 7
            = Deterministic ''pred_b''
                (Array (condition_loc ?gp (map (\<lambda>k. y ! (?inds ! k)) [0..<n])
                          (t_grid, replicate (length t_grid) 1)))"
    unfolding map_eq [symmetric] by (simp add: quasar_model_def case_prod_beta)
  have c10: "\<forall>log_probability.
          loss log_probability X diag y ps = - log_probability ?gp (map (\<lambda>k. y ! (?inds ! k)) [0..<n])"
    unfolding map_eq [symmetric] by (simp add: loss_def la)
  have c9: "\<forall>uninit s. length uninit = n \<and> length s = n \<longrightarrow>
          length (at_set uninit ?inds s) = n \<and> (\<forall>k<n. at_set uninit ?inds s ! (?inds ! k) = s ! k)"
    using li rng dst by (simp add: length_at_set at_set_nth_hit)
  have c11: "\<forall>gp_sample uninit data.
          ps = true_params \<and> X = quasar_X data \<and> diag = quasar_diag data
          \<and> length uninit = n \<and> length (gp_sample ?gp (PRNGKey 10)) = n \<longrightarrow>
          fst (quasar_simulate gp_sample uninit data) = X
        \<and> snd (snd (quasar_simulate gp_sample uninit data)) = diag
        \<and> length (fst (snd (quasar_simulate gp_sample uninit data))) = n
        \<and> (\<forall>k<n. fst (snd (quasar_simulate gp_sample uninit data)) ! (?inds ! k)
                    = gp_sample ?gp (PRNGKey 10) ! k)"
  proof (intro allI impI)
    fix gp_sample :: "quasar_gp \<Rightarrow> prng_key \<Rightarrow> real list" and uninit :: "real list" and data
    assume h: "ps = true_params \<and> X = quasar_X data \<and> diag = quasar_diag data
          \<and> length uninit = n \<and> length (gp_sample ?gp (PRNGKey 10)) = n"
    have sim: "quasar_simulate gp_sample uninit data
        = (X, at_set uninit ?inds (gp_sample ?gp (PRNGKey 10)), diag)"
      using h by (simp add: quasar_simulate_def Let_def case_prod_beta)
    from c9 h have "length (at_set uninit ?inds (gp_sample ?gp (PRNGKey 10))) = n
        \<and> (\<forall>k<n. at_set uninit ?inds (gp_sample ?gp (PRNGKey 10)) ! (?inds ! k)
                    = gp_sample ?gp (PRNGKey 10) ! k)"
      by blast
    then show "fst (quasar_simulate gp_sample uninit data) = X
        \<and> snd (snd (quasar_simulate gp_sample uninit data)) = diag
        \<and> length (fst (snd (quasar_simulate gp_sample uninit data))) = n
        \<and> (\<forall>k<n. fst (snd (quasar_simulate gp_sample uninit data)) ! (?inds ! k)
                    = gp_sample ?gp (PRNGKey 10) ! k)"
      by (simp add: sim)
  qed
  show ?thesis
    unfolding Let_def case_prod_beta
    by (intro conjI c1 c2 c3 c4 c5 c6 c7 c10 c8 c9 c11)
qed

theorem multiband_relabel_symmetry_witness:
  "length (amplitudes \<lparr>amplitudes = [2, 3], kernel = Quasisep_Matern32 1\<rparr>) = 2
   \<and> snd (0 :: real, 0 :: int) \<in> {0, 1} \<and> snd (1 :: real, 1 :: int) \<in> {0, 1}
   \<and> evaluate (\<lambda>k t1 t2 h1 h2. sum_list (map2 (*) h1 h2)) (\<lambda>k t. [1, 0])
         \<lparr>amplitudes = [3, 2], kernel = Quasisep_Matern32 1\<rparr> (0, 1) (1, 0)
     = evaluate (\<lambda>k t1 t2 h1 h2. sum_list (map2 (*) h1 h2)) (\<lambda>k t. [1, 0])
         \<lparr>amplitudes = [2, 3], kernel = Quasisep_Matern32 1\<rparr> (0, 0) (1, 1)"
  using multiband_relabel_symmetry
    [of "\<lparr>amplitudes = [2, 3], kernel = Quasisep_Matern32 1\<rparr>" "(0, 0)" "(1, 1)"
        "\<lambda>k t1 t2 h1 h2. sum_list (map2 (*) h1 h2)" "\<lambda>k t. [1, 0]"]
  by (simp add: swap_bands_def relabel_def)

theorem build_gp_sorted_consistent_witness:
  "length (fst (quasar_X [\<lparr>jd = 0, a_mag = 1, a_mag_err = 1, b_mag = 1, b_mag_err = 1\<rparr>])) = 2
   \<and> length (snd (quasar_X [\<lparr>jd = 0, a_mag = 1, a_mag_err = 1, b_mag = 1, b_mag_err = 1\<rparr>])) = 2
   \<and> length (quasar_diag [\<lparr>jd = 0, a_mag = 1, a_mag_err = 1, b_mag = 1, b_mag_err = 1\<rparr>]) = 2
   \<and> length [10, 20 :: real] = 2
   \<and> snd (build_gp true_params
            (quasar_X [\<lparr>jd = 0, a_mag = 1, a_mag_err = 1, b_mag = 1, b_mag_err = 1\<rparr>])
            (quasar_diag [\<lparr>jd = 0, a_mag = 1, a_mag_err = 1, b_mag = 1, b_mag_err = 1\<rparr>])) = [1, 0]
   \<and> sorted (fst (gp_X (fst (build_gp true_params
            (quasar_X [\<lparr>jd = 0, a_mag = 1, a_mag_err = 1, b_mag = 1, b_mag_err = 1\<rparr>])
            (quasar_diag [\<lparr>jd = 0, a_mag = 1, a_mag_err = 1, b_mag = 1, b_mag_err = 1\<rparr>])))))
   \<and> loss (\<lambda>gp ys. sum_list (map2 (*) [1, 0] ys))
        (quasar_X [\<lparr>jd = 0, a_mag = 1, a_mag_err = 1, b_mag = 1, b_mag_err = 1\<rparr>])
        (quasar_diag [\<lparr>jd = 0, a_mag = 1, a_mag_err = 1, b_mag = 1, b_mag_err = 1\<rparr>])
        [10, 20] true_params = - 20
   \<and> quasar_model (\<lambda>gp ys Xs. ys)
        (\<lambda>nm. if nm = ''lag'' then 420 else if nm = ''log_ell'' then ln 100
              else if nm = ''mean_a'' then 17.43 else 0.1)
        [0.08, 0.12] []
        (quasar_X [\<lparr>jd = 0, a_mag = 1, a_mag_err = 1, b_mag = 1, b_mag_err = 1\<rparr>])
        (quasar_diag [\<lparr>jd = 0, a_mag = 1, a_mag_err = 1, b_mag = 1, b_mag_err = 1\<rparr>])
        [10, 20] ! 6 = Deterministic ''pred_a'' (Array [20, 10])
   \<and> fst (snd (quasar_simulate (\<lambda>gp key. [7, 8]) [0, 0]
        [\<lparr>jd = 0, a_mag = 1, a_mag_err = 1, b_mag = 1, b_mag_err = 1\<rparr>])) ! 1 = 7
   \<and> fst (snd (quasar_simulate (\<lambda>gp key. [7, 8]) [0, 0]
        [\<lparr>jd = 0, a_mag = 1, a_mag_err = 1, b_mag = 1, b_mag_err = 1\<rparr>])) ! 0 = 8"
proof -
  let ?D = "[\<lparr>jd = 0, a_mag = 1, a_mag_err = 1, b_mag = 1, b_mag_err = 1\<rparr>]"
  let ?X = "quasar_X ?D" and ?d = "quasar_diag ?D" and ?y = "[10, 20 :: real]"
  let ?lat = "\<lambda>nm. if nm = ''lag'' then 420 else if nm = ''log_ell'' then ln 100
              else if nm = ''mean_a'' then 17.43 else (0.1 :: real)"
  let ?gp = "fst (build_gp true_params ?X ?d)" and ?inds = "snd (build_gp true_params ?X ?d)"
  have h1: "length (fst ?X) = 2" by (simp add: quasar_X_def)
  have h2: "length (snd ?X) = 2" by (simp add: quasar_X_def)
  have h3: "length ?d = 2" by (simp add: quasar_diag_def)
  have h4: "length ?y = 2" by simp
  have inds: "?inds = [1, 0]"
    by (simp add: snd_build_gp argsort_def time_delay_transform_def quasar_X_def true_params_def)
  have ps: "true_params = quasar_model_params ?lat [0.08, 0.12]"
    by (simp add: true_params_def quasar_model_params_def)
  note r = build_gp_sorted_consistent [OF h1 h2 h3 h4, of true_params, unfolded Let_def case_prod_beta]
  from r have a: "sorted (fst (gp_X ?gp))" by (elim conjE)
  from r have b: "\<forall>log_probability.
      loss log_probability ?X ?d ?y true_params
        = - log_probability ?gp (map (\<lambda>k. ?y ! (?inds ! k)) [0..<2])"
    by (elim conjE)
  from r have c: "\<forall>lat lat_amps condition_loc t_grid. true_params = quasar_model_params lat lat_amps \<longrightarrow>
          quasar_model condition_loc lat lat_amps t_grid ?X ?d ?y ! 5
            = Observed ''y'' (NumpyroDist ?gp) (Array (map (\<lambda>k. ?y ! (?inds ! k)) [0..<2]))
        \<and> quasar_model condition_loc lat lat_amps t_grid ?X ?d ?y ! 6
            = Deterministic ''pred_a''
                (Array (condition_loc ?gp (map (\<lambda>k. ?y ! (?inds ! k)) [0..<2])
                          (t_grid, replicate (length t_grid) 0)))
        \<and> quasar_model condition_loc lat lat_amps t_grid ?X ?d ?y ! 7
            = Deterministic ''pred_b''
                (Array (condition_loc ?gp (map (\<lambda>k. ?y ! (?inds ! k)) [0..<2])
                          (t_grid, replicate (length t_grid) 1)))"
    by (elim conjE)
  from r have g: "\<forall>gp_sample uninit data.
          true_params = true_params \<and> ?X = quasar_X data \<and> ?d = quasar_diag data
          \<and> length uninit = 2 \<and> length (gp_sample ?gp (PRNGKey 10)) = 2 \<longrightarrow>
          fst (quasar_simulate gp_sample uninit data) = ?X
        \<and> snd (snd (quasar_simulate gp_sample uninit data)) = ?d
        \<and> length (fst (snd (quasar_simulate gp_sample uninit data))) = 2
        \<and> (\<forall>k<2. fst (snd (quasar_simulate gp_sample uninit data)) ! (?inds ! k)
                    = gp_sample ?gp (PRNGKey 10) ! k)"
    by (elim conjE)
  have upt2: "[0..<2] = [0, Suc 0]" by (simp add: upt_rec numeral_2_eq_2)
  have ys: "map (\<lambda>k. ?y ! (?inds ! k)) [0..<2] = [20, 10]"
    by (simp add: inds upt2)
  have b': "loss (\<lambda>gp ys. sum_list (map2 (*) [1, 0] ys)) ?X ?d ?y true_params = - 20"
    using b [rule_format, of "\<lambda>gp ys. sum_list (map2 (*) [1, 0] ys)"] by (simp add: ys)
  have c': "quasar_model (\<lambda>gp ys Xs. ys) ?lat [0.08, 0.12] [] ?X ?d ?y ! 6
      = Deterministic ''pred_a'' (Array [20, 10])"
    using c [rule_format, OF ps, of "\<lambda>gp ys Xs. ys" "[]"] by (simp add: ys)
  have g': "\<forall>k<2. fst (snd (quasar_simulate (\<lambda>gp key. [7, 8]) [0, 0] ?D)) ! (?inds ! k)
                    = (\<lambda>(gp :: quasar_gp) (key :: prng_key). [7, 8 :: real]) ?gp (PRNGKey 10) ! k"
    using g [rule_format, where gp_sample = "\<lambda>gp key. [7, 8]" and uninit = "[0, 0]" and data = ?D]
    by simp
  have g1: "fst (snd (quasar_simulate (\<lambda>gp key. [7, 8]) [0, 0] ?D)) ! 1 = 7"
    using g' [rule_format, of 0] by (simp add: inds)
  have g0: "fst (snd (quasar_simulate (\<lambda>gp key. [7, 8]) [0, 0] ?D)) ! 0 = 8"
    using g' [rule_format, of 1] by (simp add: inds)
  show ?thesis by (intro conjI h1 h2 h3 h4 inds a b' c' g1 g0)
qed

section \<open>The grid of starting lags: what the sweep records and selects\<close>


lemma grid_step_Inr:
  assumes "opt_run ((heap s (init s))\<lparr>lag := g\<rparr>) = Inr sol"
  shows "grid_step opt_run s g = Completed
     \<lparr>heap = (heap s)(init s := (heap s (init s))\<lparr>lag := g\<rparr>, next_addr s := soln_params sol),
      next_addr = Suc (next_addr s), init = init s,
      minimum = (if fun_val sol < fst (minimum s) then (fun_val sol, next_addr s) else minimum s),
      lags = lags s @ [lag (soln_params sol)], vals = vals s @ [fun_val sol],
      calls = calls s @ [(heap s (init s))\<lparr>lag := g\<rparr>]\<rparr>"
  using assms by (simp add: grid_step_def Let_def)


lemma grid_loop_completed:
  assumes "\<forall>g\<in>set gs. opt_run ((heap s (init s))\<lparr>lag := g\<rparr>) = Inr (sol g)"
    and "init s < next_addr s"
  shows "\<exists>s'. grid_loop opt_run s gs = Completed s'
     \<and> init s' = init s
     \<and> next_addr s' = next_addr s + length gs
     \<and> heap s' (init s) = (if gs = [] then heap s (init s) else (heap s (init s))\<lparr>lag := last gs\<rparr>)
     \<and> (\<forall>a<next_addr s. a \<noteq> init s \<longrightarrow> heap s' a = heap s a)
     \<and> calls s' = calls s @ map (\<lambda>g. (heap s (init s))\<lparr>lag := g\<rparr>) gs
     \<and> lags s' = lags s @ map (\<lambda>g. lag (soln_params (sol g))) gs
     \<and> vals s' = vals s @ map (\<lambda>g. fun_val (sol g)) gs
     \<and> fst (minimum s') = fold min (map (\<lambda>g. fun_val (sol g)) gs) (fst (minimum s))
     \<and> (minimum s' = minimum s
        \<or> (\<exists>g\<in>set gs. fst (minimum s') = fun_val (sol g) \<and> fun_val (sol g) < fst (minimum s)
              \<and> next_addr s \<le> snd (minimum s') \<and> heap s' (snd (minimum s')) = soln_params (sol g)))"
  using assms
proof (induction gs arbitrary: s)
  case Nil
  then show ?case by simp
next
  case (Cons g gs)
  let ?p0 = "heap s (init s)"
  define s1 where "s1 =
     \<lparr>heap = (heap s)(init s := ?p0\<lparr>lag := g\<rparr>, next_addr s := soln_params (sol g)),
      next_addr = Suc (next_addr s), init = init s,
      minimum = (if fun_val (sol g) < fst (minimum s) then (fun_val (sol g), next_addr s) else minimum s),
      lags = lags s @ [lag (soln_params (sol g))], vals = vals s @ [fun_val (sol g)],
      calls = calls s @ [?p0\<lparr>lag := g\<rparr>]\<rparr>"
  have step: "grid_step opt_run s g = Completed s1"
    unfolding s1_def using Cons.prems(1) by (intro grid_step_Inr) simp
  have ne: "init s \<noteq> next_addr s" using Cons.prems(2) by simp
  have h1: "heap s1 (init s1) = ?p0\<lparr>lag := g\<rparr>" using ne by (simp add: s1_def)
  have i1: "init s1 = init s" "next_addr s1 = Suc (next_addr s)" by (simp_all add: s1_def)
  have pre: "\<forall>g'\<in>set gs. opt_run ((heap s1 (init s1))\<lparr>lag := g'\<rparr>) = Inr (sol g')"
    using Cons.prems(1) by (simp add: h1)
  have lt: "init s1 < next_addr s1" using Cons.prems(2) by (simp add: i1)
  from Cons.IH [OF pre lt] obtain s' where
    loop: "grid_loop opt_run s1 gs = Completed s'"
    and a1: "init s' = init s1"
    and a2: "next_addr s' = next_addr s1 + length gs"
    and a3: "heap s' (init s1) = (if gs = [] then heap s1 (init s1) else (heap s1 (init s1))\<lparr>lag := last gs\<rparr>)"
    and a4: "\<forall>a<next_addr s1. a \<noteq> init s1 \<longrightarrow> heap s' a = heap s1 a"
    and a5: "calls s' = calls s1 @ map (\<lambda>g. (heap s1 (init s1))\<lparr>lag := g\<rparr>) gs"
    and a6: "lags s' = lags s1 @ map (\<lambda>g. lag (soln_params (sol g))) gs"
    and a7: "vals s' = vals s1 @ map (\<lambda>g. fun_val (sol g)) gs"
    and a8: "fst (minimum s') = fold min (map (\<lambda>g. fun_val (sol g)) gs) (fst (minimum s1))"
    and a9: "minimum s' = minimum s1
        \<or> (\<exists>g\<in>set gs. fst (minimum s') = fun_val (sol g) \<and> fun_val (sol g) < fst (minimum s1)
              \<and> next_addr s1 \<le> snd (minimum s') \<and> heap s' (snd (minimum s')) = soln_params (sol g))"
    by blast
  have b0: "grid_loop opt_run s (g # gs) = Completed s'" by (simp add: step loop)
  have b1: "init s' = init s" by (simp add: a1 i1)
  have b2: "next_addr s' = next_addr s + length (g # gs)" by (simp add: a2 i1)
  have b3: "heap s' (init s) = ?p0\<lparr>lag := last (g # gs)\<rparr>"
    using a3 h1 unfolding i1 by (cases "gs = []") simp_all
  have b4: "\<forall>a<next_addr s. a \<noteq> init s \<longrightarrow> heap s' a = heap s a"
    using a4 by (simp add: i1 s1_def)
  have b5: "calls s' = calls s @ map (\<lambda>g. ?p0\<lparr>lag := g\<rparr>) (g # gs)"
    by (simp add: a5 h1) (simp add: s1_def)
  have b6: "lags s' = lags s @ map (\<lambda>g. lag (soln_params (sol g))) (g # gs)"
    by (simp add: a6 s1_def)
  have b7: "vals s' = vals s @ map (\<lambda>g. fun_val (sol g)) (g # gs)"
    by (simp add: a7 s1_def)
  have m1: "fst (minimum s1) = min (fun_val (sol g)) (fst (minimum s))"
    by (simp add: s1_def min_def)
  have b8: "fst (minimum s') = fold min (map (\<lambda>g. fun_val (sol g)) (g # gs)) (fst (minimum s))"
    by (simp add: a8 m1)
  have le1: "fst (minimum s1) \<le> fst (minimum s)" by (simp add: m1)
  have b9: "minimum s' = minimum s
        \<or> (\<exists>g'\<in>set (g # gs). fst (minimum s') = fun_val (sol g') \<and> fun_val (sol g') < fst (minimum s)
              \<and> next_addr s \<le> snd (minimum s') \<and> heap s' (snd (minimum s')) = soln_params (sol g'))"
  proof (cases "minimum s' = minimum s1")
    case True
    show ?thesis
    proof (cases "fun_val (sol g) < fst (minimum s)")
      case False
      then have "minimum s1 = minimum s" by (simp add: s1_def)
      with True show ?thesis by simp
    next
      case lt: True
      then have ms1: "minimum s1 = (fun_val (sol g), next_addr s)" by (simp add: s1_def)
      have "heap s' (next_addr s) = heap s1 (next_addr s)"
        using a4 ne by (simp add: i1)
      then have "heap s' (next_addr s) = soln_params (sol g)" by (simp add: s1_def)
      with True ms1 lt show ?thesis by simp
    qed
  next
    case False
    with a9 obtain g' where g': "g' \<in> set gs" "fst (minimum s') = fun_val (sol g')"
      "fun_val (sol g') < fst (minimum s1)" "next_addr s1 \<le> snd (minimum s')"
      "heap s' (snd (minimum s')) = soln_params (sol g')"
      by blast
    then have "fun_val (sol g') < fst (minimum s)" "next_addr s \<le> snd (minimum s')"
      using le1 by (simp_all add: i1)
    with g' show ?thesis by auto
  qed
  from b0 b1 b2 b3 b4 b5 b6 b7 b8 b9 show ?case
    by (intro exI [of _ s'] conjI) simp_all
qed




lemma length_lag_grid: "length lag_grid = 100"
  by (simp add: lag_grid_def linspace_def)

lemma nth_lag_grid: "k < 100 \<Longrightarrow> lag_grid ! k = 1000 * real k / 99"
  by (simp add: lag_grid_def linspace_def)

lemma lag_grid_nonempty: "lag_grid \<noteq> []"
  using length_lag_grid by auto

lemma last_lag_grid: "last lag_grid = 1000"
  using nth_lag_grid [of 99] length_lag_grid lag_grid_nonempty
  by (simp add: last_conv_nth)

lemma fold_min_Min: "fold min vs (m :: real) = Min (insert m (set vs))"
  using Min.set_eq_fold [of m vs] by simp

lemma grid_start_simps:
  "heap (grid_start loss_fn h n) n = true_params"
  "init (grid_start loss_fn h n) = n"
  "next_addr (grid_start loss_fn h n) = Suc n"
  "minimum (grid_start loss_fn h n) = (loss_fn true_params, n)"
  "lags (grid_start loss_fn h n) = []"
  "vals (grid_start loss_fn h n) = []"
  "calls (grid_start loss_fn h n) = []"
  by (simp_all add: grid_start_def)

lemma grid_search_run:
  assumes "\<forall>g\<in>set lag_grid. opt_run (true_params\<lparr>lag := g\<rparr>) = Inr (sol g)"
  shows "\<exists>s. grid_search loss_fn opt_run h n = Completed s
     \<and> calls s = map (\<lambda>g. true_params\<lparr>lag := g\<rparr>) lag_grid
     \<and> lags s = map (\<lambda>g. lag (soln_params (sol g))) lag_grid
     \<and> vals s = map (\<lambda>g. fun_val (sol g)) lag_grid
     \<and> fst (minimum s) = Min (insert (loss_fn true_params) (set (vals s)))
     \<and> init s = snd (minimum s)
     \<and> heap s n = true_params\<lparr>lag := 1000\<rparr>
     \<and> (minimum s = (loss_fn true_params, n)
        \<or> (\<exists>g\<in>set lag_grid. fst (minimum s) = fun_val (sol g) \<and> fun_val (sol g) < loss_fn true_params
              \<and> heap s (snd (minimum s)) = soln_params (sol g)))"
proof -
  let ?s0 = "grid_start loss_fn h n"
  have pre: "\<forall>g\<in>set lag_grid. opt_run ((heap ?s0 (init ?s0))\<lparr>lag := g\<rparr>) = Inr (sol g)"
    using assms by (simp add: grid_start_simps)
  have lt: "init ?s0 < next_addr ?s0" by (simp add: grid_start_simps)
  from grid_loop_completed [OF pre lt] obtain s' where
    loop: "grid_loop opt_run ?s0 lag_grid = Completed s'"
    and b3: "heap s' (init ?s0) =
        (if lag_grid = [] then heap ?s0 (init ?s0) else (heap ?s0 (init ?s0))\<lparr>lag := last lag_grid\<rparr>)"
    and b5: "calls s' = calls ?s0 @ map (\<lambda>g. (heap ?s0 (init ?s0))\<lparr>lag := g\<rparr>) lag_grid"
    and b6: "lags s' = lags ?s0 @ map (\<lambda>g. lag (soln_params (sol g))) lag_grid"
    and b7: "vals s' = vals ?s0 @ map (\<lambda>g. fun_val (sol g)) lag_grid"
    and b8: "fst (minimum s') = fold min (map (\<lambda>g. fun_val (sol g)) lag_grid) (fst (minimum ?s0))"
    and b9: "minimum s' = minimum ?s0
        \<or> (\<exists>g\<in>set lag_grid. fst (minimum s') = fun_val (sol g) \<and> fun_val (sol g) < fst (minimum ?s0)
              \<and> next_addr ?s0 \<le> snd (minimum s') \<and> heap s' (snd (minimum s')) = soln_params (sol g))"
    by blast
  have a3: "heap s' n = true_params\<lparr>lag := 1000\<rparr>"
    using b3 by (simp add: grid_start_simps lag_grid_nonempty last_lag_grid)
  have a5: "calls s' = map (\<lambda>g. true_params\<lparr>lag := g\<rparr>) lag_grid"
    using b5 by (simp add: grid_start_simps)
  have a6: "lags s' = map (\<lambda>g. lag (soln_params (sol g))) lag_grid"
    using b6 by (simp add: grid_start_simps)
  have a7: "vals s' = map (\<lambda>g. fun_val (sol g)) lag_grid"
    using b7 by (simp add: grid_start_simps)
  have a8: "fst (minimum s') = fold min (map (\<lambda>g. fun_val (sol g)) lag_grid) (loss_fn true_params)"
    using b8 by (simp add: grid_start_simps)
  have a9: "minimum s' = (loss_fn true_params, n)
        \<or> (\<exists>g\<in>set lag_grid. fst (minimum s') = fun_val (sol g) \<and> fun_val (sol g) < loss_fn true_params
              \<and> heap s' (snd (minimum s')) = soln_params (sol g))"
    using b9 by (simp add: grid_start_simps) blast
  let ?s = "s'\<lparr>init := snd (minimum s')\<rparr>"
  have r: "grid_search loss_fn opt_run h n = Completed ?s"
    by (simp add: grid_search_def loop)
  have m: "fst (minimum ?s) = Min (insert (loss_fn true_params) (set (vals ?s)))"
    by (simp add: a8 a7 fold_min_Min)
  from r a3 a5 a6 a7 m a9 show ?thesis
    by (intro exI [of _ ?s] conjI) simp_all
qed


text \<open>
  Whatever the optimizer returns, the recorded loss \<open>minimum[0]\<close> is at most the loss
  at the true parameters.
\<close>

lemma grid_search_recorded_le:
  assumes "\<forall>g\<in>set lag_grid. opt_run (true_params\<lparr>lag := g\<rparr>) = Inr (sol g)"
  shows "\<exists>s. grid_search loss_fn opt_run h n = Completed s \<and> fst (minimum s) \<le> loss_fn true_params"
proof -
  from grid_search_run [OF assms, of loss_fn h n] obtain s where
    r: "grid_search loss_fn opt_run h n = Completed s"
    and m: "fst (minimum s) = Min (insert (loss_fn true_params) (set (vals s)))"
    by blast
  have "Min (insert (loss_fn true_params) (set (vals s))) \<le> loss_fn true_params"
    by (rule Min_le) simp_all
  with r m show ?thesis by simp
qed

text \<open>
  C3, as amended. The sweep visits the fixed grid of 100 lags \<open>1000 k / 99\<close>. When no
  optimization raises, the optimizer is invoked once per grid value, in order, each
  time started from the true parameters with the lag set to the grid value; the grid
  value is only the starting lag, and the lag and the loss the optimizer returns are
  what is recorded. The recorded minimum is the least of the loss at the true
  parameters and all returned losses, and when it is below the loss at the true
  parameters the dictionary selected as the initialization is a returned solution
  with that loss.
\<close>

theorem grid_search_multistart:
  assumes "\<forall>g\<in>set lag_grid. opt_run (true_params\<lparr>lag := g\<rparr>) = Inr (sol g)"
  shows "\<exists>s. grid_search loss_fn opt_run h n = Completed s
     \<and> length lag_grid = 100 \<and> (\<forall>k<100. lag_grid ! k = 1000 * real k / 99)
     \<and> calls s = map (\<lambda>g. true_params\<lparr>lag := g\<rparr>) lag_grid
     \<and> lags s = map (\<lambda>g. lag (soln_params (sol g))) lag_grid
     \<and> vals s = map (\<lambda>g. fun_val (sol g)) lag_grid
     \<and> fst (minimum s) = Min (insert (loss_fn true_params) (set (vals s)))
     \<and> (fst (minimum s) < loss_fn true_params \<longrightarrow>
          (\<exists>g\<in>set lag_grid. fun_val (sol g) = fst (minimum s) \<and> heap s (init s) = soln_params (sol g)))"
proof -
  from grid_search_run [OF assms, of loss_fn h n] obtain s where
    r: "grid_search loss_fn opt_run h n = Completed s"
    and a: "calls s = map (\<lambda>g. true_params\<lparr>lag := g\<rparr>) lag_grid"
      "lags s = map (\<lambda>g. lag (soln_params (sol g))) lag_grid"
      "vals s = map (\<lambda>g. fun_val (sol g)) lag_grid"
      "fst (minimum s) = Min (insert (loss_fn true_params) (set (vals s)))"
    and i: "init s = snd (minimum s)"
    and d: "minimum s = (loss_fn true_params, n)
        \<or> (\<exists>g\<in>set lag_grid. fst (minimum s) = fun_val (sol g) \<and> fun_val (sol g) < loss_fn true_params
              \<and> heap s (snd (minimum s)) = soln_params (sol g))"
    by blast
  have sel: "fst (minimum s) < loss_fn true_params \<longrightarrow>
          (\<exists>g\<in>set lag_grid. fun_val (sol g) = fst (minimum s) \<and> heap s (init s) = soln_params (sol g))"
    using d i by auto
  from r a sel length_lag_grid nth_lag_grid show ?thesis
    by (intro exI [of _ s] conjI) simp_all
qed

theorem grid_search_multistart_witness:
  "\<exists>s. grid_search (\<lambda>p. 5) (\<lambda>p. Inr \<lparr>soln_params = p\<lparr>lag := 420\<rparr>, fun_val = 3\<rparr>) (\<lambda>a. true_params) 0
          = Completed s
        \<and> calls s = map (\<lambda>g. true_params\<lparr>lag := g\<rparr>) lag_grid
        \<and> vals s = map (\<lambda>g. 3) lag_grid
        \<and> fst (minimum s) < 5
        \<and> heap s (init s) = true_params\<lparr>lag := 420\<rparr>"
proof -
  have h: "\<forall>g\<in>set lag_grid. (\<lambda>p. Inr \<lparr>soln_params = p\<lparr>lag := 420\<rparr>, fun_val = 3\<rparr>) (true_params\<lparr>lag := g\<rparr>)
        = (Inr ((\<lambda>g. \<lparr>soln_params = true_params\<lparr>lag := 420\<rparr>, fun_val = 3\<rparr>) g) :: error + soln)"
    by simp
  let ?sol = "\<lparr>soln_params = true_params\<lparr>lag := 420\<rparr>, fun_val = 3\<rparr>"
  from grid_search_multistart [OF h, of "\<lambda>p. 5" "\<lambda>a. true_params" 0] obtain s where
    r: "grid_search (\<lambda>p. 5) (\<lambda>p. Inr \<lparr>soln_params = p\<lparr>lag := 420\<rparr>, fun_val = 3\<rparr>) (\<lambda>a. true_params) 0
          = Completed s"
    and c: "calls s = map (\<lambda>g. true_params\<lparr>lag := g\<rparr>) lag_grid"
    and v0: "vals s = map (\<lambda>g. fun_val ?sol) lag_grid"
    and m: "fst (minimum s) = Min (insert 5 (set (vals s)))"
    and sel0: "fst (minimum s) < 5 \<longrightarrow>
          (\<exists>g\<in>set lag_grid. fun_val ?sol = fst (minimum s) \<and> heap s (init s) = soln_params ?sol)"
    by blast
  have v: "vals s = map (\<lambda>g. 3) lag_grid" using v0 by simp
  have "set (vals s) = {3}" by (simp add: v image_constant_conv lag_grid_nonempty)
  with m have lt: "fst (minimum s) < 5" by simp
  with sel0 have "heap s (init s) = true_params\<lparr>lag := 420\<rparr>" by auto
  with r c v lt show ?thesis by blast
qed

text \<open>
  C3 as stated fails: the lag is not held at the grid value. With an optimizer that
  moves the lag halfway to 420, the optimization started at grid lag 0 returns, and
  the sweep records, lag 210.
\<close>

theorem grid_search_lag_moves:
  "completed (grid_search (\<lambda>p. (lag p - 420)\<^sup>2)
       (\<lambda>p. Inr \<lparr>soln_params = p\<lparr>lag := (lag p + 420) / 2\<rparr>, fun_val = ((lag p + 420) / 2 - 420)\<^sup>2\<rparr>)
       (\<lambda>a. true_params) 0)
   \<and> calls (final_state (grid_search (\<lambda>p. (lag p - 420)\<^sup>2)
       (\<lambda>p. Inr \<lparr>soln_params = p\<lparr>lag := (lag p + 420) / 2\<rparr>, fun_val = ((lag p + 420) / 2 - 420)\<^sup>2\<rparr>)
       (\<lambda>a. true_params) 0)) ! 0 = true_params\<lparr>lag := 0\<rparr>
   \<and> lags (final_state (grid_search (\<lambda>p. (lag p - 420)\<^sup>2)
       (\<lambda>p. Inr \<lparr>soln_params = p\<lparr>lag := (lag p + 420) / 2\<rparr>, fun_val = ((lag p + 420) / 2 - 420)\<^sup>2\<rparr>)
       (\<lambda>a. true_params) 0)) ! 0 = 210"
proof -
  let ?opt = "\<lambda>p. Inr \<lparr>soln_params = p\<lparr>lag := (lag p + 420) / 2\<rparr>, fun_val = ((lag p + 420) / 2 - 420)\<^sup>2\<rparr> :: error + soln"
  let ?sol = "\<lambda>g. \<lparr>soln_params = true_params\<lparr>lag := (g + 420) / 2\<rparr>, fun_val = ((g + 420) / 2 - 420)\<^sup>2\<rparr>"
  have h: "\<forall>g\<in>set lag_grid. ?opt (true_params\<lparr>lag := g\<rparr>) = Inr (?sol g)" by simp
  from grid_search_run [OF h, of "\<lambda>p. (lag p - 420)\<^sup>2" "\<lambda>a. true_params" 0] obtain s where
    r: "grid_search (\<lambda>p. (lag p - 420)\<^sup>2) ?opt (\<lambda>a. true_params) 0 = Completed s"
    and c: "calls s = map (\<lambda>g. true_params\<lparr>lag := g\<rparr>) lag_grid"
    and l: "lags s = map (\<lambda>g. lag (soln_params (?sol g))) lag_grid"
    by blast
  have z: "lag_grid ! 0 = 0" using nth_lag_grid [of 0] by simp
  have c0: "calls s ! 0 = true_params\<lparr>lag := 0\<rparr>"
    using z by (simp add: c length_lag_grid)
  have l0: "lags s ! 0 = 210"
    using z by (simp add: l length_lag_grid)
  from r c0 l0 show ?thesis by simp
qed

text \<open>
  C2. The selected dictionary need not achieve the recorded loss. Take the loss
  \<open>(lag - 420)\<^sup>2\<close>, which is 0 at the true parameters, and an optimizer that from every
  starting point returns lag 420 with loss 0. No returned loss is strictly below the
  loss at the true parameters, so \<open>minimum\<close> keeps its first value, whose dictionary
  is the object \<open>init\<close>; the loop has overwritten its lag with every grid value, last
  with 1000. The recorded loss is 0, the loss of the selected dictionary is 336400.
\<close>

theorem grid_search_alias_failure:
  "completed (grid_search (\<lambda>p. (lag p - 420)\<^sup>2) (\<lambda>p. Inr \<lparr>soln_params = p\<lparr>lag := 420\<rparr>, fun_val = 0\<rparr>)
       (\<lambda>a. true_params) 0)
   \<and> (\<lambda>p. (lag p - 420)\<^sup>2) true_params = 0
   \<and> fst (minimum (final_state (grid_search (\<lambda>p. (lag p - 420)\<^sup>2)
       (\<lambda>p. Inr \<lparr>soln_params = p\<lparr>lag := 420\<rparr>, fun_val = 0\<rparr>) (\<lambda>a. true_params) 0))) = 0
   \<and> selected (final_state (grid_search (\<lambda>p. (lag p - 420)\<^sup>2)
       (\<lambda>p. Inr \<lparr>soln_params = p\<lparr>lag := 420\<rparr>, fun_val = 0\<rparr>) (\<lambda>a. true_params) 0))
      = true_params\<lparr>lag := 1000\<rparr>
   \<and> (\<lambda>p. (lag p - 420)\<^sup>2) (selected (final_state (grid_search (\<lambda>p. (lag p - 420)\<^sup>2)
       (\<lambda>p. Inr \<lparr>soln_params = p\<lparr>lag := 420\<rparr>, fun_val = 0\<rparr>) (\<lambda>a. true_params) 0)))
      = 336400"
proof -
  let ?loss = "\<lambda>p. (lag p - 420)\<^sup>2"
  let ?opt = "\<lambda>p. Inr \<lparr>soln_params = p\<lparr>lag := 420\<rparr>, fun_val = 0\<rparr> :: error + soln"
  let ?sol = "\<lambda>g :: real. \<lparr>soln_params = true_params\<lparr>lag := 420\<rparr>, fun_val = 0\<rparr>"
  have t: "?loss true_params = 0" by (simp add: true_params_def)
  have h: "\<forall>g\<in>set lag_grid. ?opt (true_params\<lparr>lag := g\<rparr>) = Inr (?sol g)" by simp
  from grid_search_run [OF h, of ?loss "\<lambda>a. true_params" 0] obtain s where
    r: "grid_search ?loss ?opt (\<lambda>a. true_params) 0 = Completed s"
    and hp: "heap s 0 = true_params\<lparr>lag := 1000\<rparr>"
    and d: "minimum s = (?loss true_params, 0)
        \<or> (\<exists>g\<in>set lag_grid. fst (minimum s) = fun_val (?sol g) \<and> fun_val (?sol g) < ?loss true_params
              \<and> heap s (snd (minimum s)) = soln_params (?sol g))"
    by blast
  from d t have m: "minimum s = (0, 0)" by simp
  have sel: "selected s = true_params\<lparr>lag := 1000\<rparr>" by (simp add: selected_def m hp)
  have v: "?loss (selected s) = 336400" by (simp add: sel)
  from r t m sel v show ?thesis by simp
qed

section \<open>The two transit fits\<close>


lemma light_curve_params_gp:
  "light_curve flux (transit_model_params lat lat_u True) = light_curve flux (transit_model_params lat lat_u False)"
  by (rule ext) (simp add: light_curve_def light_curve_orbit_def transit_model_params_def)

lemma transit_build_gp_model:
  "transit_build_gp flux (transit_model_params lat lat_u True) t d =
     Inr \<lparr>gp_kernel = Quasisep_Scaled (exp (2 * lat ''log_amp'')) (Quasisep_Matern32 (exp (lat ''log_ell''))),
          gp_X = t, gp_diag = d, gp_mean = light_curve flux (transit_model_params lat lat_u True)\<rparr>"
  by (simp add: transit_build_gp_def transit_model_params_def)

text \<open>
  C10. With observations given, both fits declare exactly the latent sites \<open>log_jitter\<close>,
  \<open>log_f0\<close>, \<open>u\<close>, \<open>t0\<close>, \<open>log_r\<close>, and the sites \<open>log_amp\<close>, \<open>log_ell\<close> as well exactly
  when the Gaussian process is used; neither raises. In both, the orbit of the light
  curve has duration 0.12 and impact parameter 0.1, whatever the latent values. With
  the process, the observations are scored against a process on the times \<open>t\<close> whose
  mean is the light curve of the model's parameters and whose diagonal is
  \<open>y_err\<^sup>2 + exp (2 log_jitter)\<close>; without it, against a normal distribution whose
  mean is the light curve at \<open>t\<close> and whose scale squared is the same variance; and the
  two light-curve functions are the same function.
\<close>

theorem transit_fits_share_mean_and_variance:
  "(\<exists>tr. transit_model flux condition_loc lat lat_u lat_y t y_err (Some y) use_gp = Inr tr
        \<and> map site_name (filter is_latent tr)
            = [''log_jitter'', ''log_f0'', ''u'', ''t0'', ''log_r'']
              @ (if use_gp then [''log_amp'', ''log_ell''] else []))
   \<and> duration (light_curve_orbit (transit_model_params lat lat_u use_gp)) = 0.12
   \<and> impact_param (light_curve_orbit (transit_model_params lat lat_u use_gp)) = 0.1
   \<and> (\<exists>tr gp. transit_model flux condition_loc lat lat_u lat_y t y_err (Some y) True = Inr tr
        \<and> tr ! 8 = Observed ''y'' (NumpyroDist gp) (Array y)
        \<and> gp_X gp = t
        \<and> gp_mean gp = light_curve flux (transit_model_params lat lat_u True)
        \<and> gp_diag gp = y_err ^ 2 + exp (2 * lat ''log_jitter''))
   \<and> (\<exists>tr scale. transit_model flux condition_loc lat lat_u lat_y t y_err (Some y) False = Inr tr
        \<and> tr ! 6 = Observed ''y''
                     (NormalArray (light_curve flux (transit_model_params lat lat_u False) t) scale) (Array y)
        \<and> 0 \<le> scale \<and> scale ^ 2 = y_err ^ 2 + exp (2 * lat ''log_jitter''))
   \<and> light_curve flux (transit_model_params lat lat_u True)
     = light_curve flux (transit_model_params lat lat_u False)"
proof -
  have pos: "0 \<le> y_err ^ 2 + exp (2 * lat ''log_jitter'')"
    by (simp add: add_nonneg_nonneg)
  have c1: "\<exists>tr. transit_model flux condition_loc lat lat_u lat_y t y_err (Some y) use_gp = Inr tr
        \<and> map site_name (filter is_latent tr)
            = [''log_jitter'', ''log_f0'', ''u'', ''t0'', ''log_r'']
              @ (if use_gp then [''log_amp'', ''log_ell''] else [])"
    by (cases use_gp) (simp_all add: transit_model_def transit_build_gp_model sample_obs_def Let_def)
  have c2: "duration (light_curve_orbit (transit_model_params lat lat_u use_gp)) = 0.12"
    by (cases use_gp) (simp_all add: light_curve_orbit_def transit_model_params_def Let_def)
  have c3: "impact_param (light_curve_orbit (transit_model_params lat lat_u use_gp)) = 0.1"
    by (cases use_gp) (simp_all add: light_curve_orbit_def transit_model_params_def Let_def)
  have c4: "\<exists>tr gp. transit_model flux condition_loc lat lat_u lat_y t y_err (Some y) True = Inr tr
        \<and> tr ! 8 = Observed ''y'' (NumpyroDist gp) (Array y)
        \<and> gp_X gp = t
        \<and> gp_mean gp = light_curve flux (transit_model_params lat lat_u True)
        \<and> gp_diag gp = y_err ^ 2 + exp (2 * lat ''log_jitter'')"
    by (simp add: transit_model_def transit_build_gp_model sample_obs_def Let_def)
  have c5: "\<exists>tr scale. transit_model flux condition_loc lat lat_u lat_y t y_err (Some y) False = Inr tr
        \<and> tr ! 6 = Observed ''y''
                     (NormalArray (light_curve flux (transit_model_params lat lat_u False) t) scale) (Array y)
        \<and> 0 \<le> scale \<and> scale ^ 2 = y_err ^ 2 + exp (2 * lat ''log_jitter'')"
    using pos by (simp add: transit_model_def sample_obs_def Let_def)
  show ?thesis by (intro conjI c1 c2 c3 c4 c5 light_curve_params_gp)
qed

section \<open>Exceptions: where they stop the cell and where they do not\<close>









section \<open>The observations are not modified after they are generated\<close>


lemma run_cell_frame: "x \<notin> set (map fst c) \<Longrightarrow> run_cell c env x = env x"
  unfolding run_cell_def
  by (induction c arbitrary: env) (auto simp: exec_stmt_def)

lemma later_targets_avoid_observations:
  "tg \<in> set (later_targets nb) \<Longrightarrow> x \<in> set (observation_names nb) \<Longrightarrow> x \<notin> set tg"
  by (cases nb) auto

lemma later_cell_frame:
  assumes "later_cell nb c" and "x \<in> set (observation_names nb)"
  shows "run_cell c env x = env x"
proof -
  from assms(1) obtain tg where tg: "tg \<in> set (later_targets nb)" "set (map fst c) \<subseteq> set tg"
    unfolding later_cell_def by blast
  from later_targets_avoid_observations [OF tg(1) assms(2)] tg(2) have "x \<notin> set (map fst c)"
    by blast
  then show ?thesis by (rule run_cell_frame)
qed

text \<open>
  C7. In each notebook, after the cell that generates the observations, no run of the
  later cells changes an observation: for every sequence of runs of later cells, in
  any order and any number of times, each to its end or cut short, and whatever the
  right-hand sides of their statements compute, every observation name has the value
  it had before.
\<close>

theorem observations_not_modified:
  assumes "\<forall>c \<in> set cells. later_cell nb c" and "x \<in> set (observation_names nb)"
  shows "fold run_cell cells env x = env x"
  using assms(1)
proof (induction cells arbitrary: env)
  case Nil
  show ?case by simp
next
  case (Cons c cells)
  then have "fold run_cell cells (run_cell c env) x = run_cell c env x" by simp
  also have "run_cell c env x = env x"
  proof (rule later_cell_frame)
    show "later_cell nb c" using Cons.prems by simp
    show "x \<in> set (observation_names nb)" by (rule assms(2))
  qed
  finally show ?case by simp
qed

theorem observations_not_modified_witness:
  "fold run_cell
     [[(''t_lagged'', \<lambda>env. (1 :: nat)), (''t_grid'', \<lambda>env. 2)],
      [(''samples'', \<lambda>env. 3), (''lag'', \<lambda>env. 4), (''inds'', \<lambda>env. 5)]]
     ((\<lambda>x. None)(''y'' \<mapsto> 7)) ''y'' = Some 7"
proof -
  have c: "\<forall>c \<in> set [[(''t_lagged'', \<lambda>env. (1 :: nat)), (''t_grid'', \<lambda>env. 2)],
      [(''samples'', \<lambda>env. 3), (''lag'', \<lambda>env. 4), (''inds'', \<lambda>env. 5)]]. later_cell Quasar c"
    by (simp add: later_cell_def)
  have x: "''y'' \<in> set (observation_names Quasar)" by simp
  from observations_not_modified [OF c x, of "(\<lambda>x. None)(''y'' \<mapsto> 7)"] show ?thesis by simp
qed

end
